theory Spec2Isabelle
  imports Main "HOL-Library.AList"
begin

section \<open>Python library functions used by ert\_config.py\<close>

text \<open>
  The functions of this section are the parts of the Python standard library that
  \<^verbatim>\<open>src/ert/config/ert_config.py\<close> calls and whose result decides a property below:
  \<^verbatim>\<open>os.path.join\<close>, \<^verbatim>\<open>os.path.isabs\<close>, \<^verbatim>\<open>os.path.normpath\<close>, \<^verbatim>\<open>os.path.dirname\<close>
  (their POSIX versions, from \<^verbatim>\<open>posixpath.py\<close>), \<^verbatim>\<open>str.split\<close>, \<^verbatim>\<open>str.replace\<close>,
  \<^verbatim>\<open>str.lower\<close> and \<^verbatim>\<open>in\<close> on strings. Strings are lists of 8-bit characters.
\<close>

subsection \<open>Paths\<close>

definition sep :: char where
  "sep = CHR ''/''"

definition startswith :: "string \<Rightarrow> string \<Rightarrow> bool" where
  "startswith s p = (take (length p) s = p)"

definition endswith :: "string \<Rightarrow> string \<Rightarrow> bool" where
  "endswith s p = (length p \<le> length s \<and> drop (length s - length p) s = p)"

text \<open>\<^verbatim>\<open>posixpath.join(a, b)\<close>: an absolute second part replaces the first.\<close>

definition os_path_join :: "string \<Rightarrow> string \<Rightarrow> string" where
  "os_path_join a b =
     (if startswith b [sep] then b
      else if a = [] \<or> endswith a [sep] then a @ b
      else a @ [sep] @ b)"

definition os_path_isabs :: "string \<Rightarrow> bool" where
  "os_path_isabs s = startswith s [sep]"

text \<open>\<^verbatim>\<open>s.split(c)\<close> for a one-character separator: the empty string splits into \<^verbatim>\<open>['']\<close>.\<close>

fun split_on :: "char \<Rightarrow> string \<Rightarrow> string list" where
  "split_on c [] = [[]]"
| "split_on c (x # xs) =
     (if x = c then [] # split_on c xs
      else (case split_on c xs of
              [] \<Rightarrow> [[x]]
            | w # ws \<Rightarrow> (x # w) # ws))"

text \<open>\<^verbatim>\<open>c.join(parts)\<close>.\<close>

fun join_with :: "char \<Rightarrow> string list \<Rightarrow> string" where
  "join_with c [] = []"
| "join_with c [w] = w"
| "join_with c (w # v # ws) = w @ [c] @ join_with c (v # ws)"

text \<open>
  The loop of \<^verbatim>\<open>posixpath.normpath\<close> over the components; \<open>new_comps\<close> is the list the
  loop appends to and pops from.
\<close>

fun normpath_loop :: "nat \<Rightarrow> string list \<Rightarrow> string list \<Rightarrow> string list" where
  "normpath_loop initial_slashes [] new_comps = new_comps"
| "normpath_loop initial_slashes (cmp # comps) new_comps =
     (if cmp = [] \<or> cmp = ''.'' then normpath_loop initial_slashes comps new_comps
      else if cmp \<noteq> ''..'' \<or> (initial_slashes = 0 \<and> new_comps = [])
              \<or> (new_comps \<noteq> [] \<and> last new_comps = ''..'')
      then normpath_loop initial_slashes comps (new_comps @ [cmp])
      else if new_comps \<noteq> [] then normpath_loop initial_slashes comps (butlast new_comps)
      else normpath_loop initial_slashes comps new_comps)"

definition os_path_normpath :: "string \<Rightarrow> string" where
  "os_path_normpath path =
     (if path = [] then ''.''
      else
        let initial_slashes =
              (if startswith path [sep] then
                 (if startswith path [sep, sep] \<and> \<not> startswith path [sep, sep, sep]
                  then 2 else 1)
               else 0);
            comps = normpath_loop initial_slashes (split_on sep path) [];
            joined = replicate initial_slashes sep @ join_with sep comps
        in if joined = [] then ''.'' else joined)"

text \<open>
  \<^verbatim>\<open>posixpath.dirname\<close>: everything up to the last separator, without the trailing
  separators unless the head consists of separators only.
\<close>

definition rstrip_char :: "char \<Rightarrow> string \<Rightarrow> string" where
  "rstrip_char c s = rev (dropWhile (\<lambda>x. x = c) (rev s))"

definition os_path_dirname :: "string \<Rightarrow> string" where
  "os_path_dirname p =
     (let head = rev (dropWhile (\<lambda>x. x \<noteq> sep) (rev p))
      in if head \<noteq> [] \<and> head \<noteq> replicate (length head) sep
         then rstrip_char sep head else head)"

subsection \<open>Strings\<close>

text \<open>\<^verbatim>\<open>s.lower()\<close> on ASCII letters, and \<^verbatim>\<open>sub in s\<close> for strings.\<close>

definition lower_char :: "char \<Rightarrow> char" where
  "lower_char c =
     (case map_of (zip ''ABCDEFGHIJKLMNOPQRSTUVWXYZ'' ''abcdefghijklmnopqrstuvwxyz'') c of
        Some l \<Rightarrow> l
      | None \<Rightarrow> c)"

definition lower :: "string \<Rightarrow> string" where
  "lower s = map lower_char s"

fun contains :: "string \<Rightarrow> string \<Rightarrow> bool" where
  "contains sub [] = (sub = [])"
| "contains sub (c # cs) = (startswith (c # cs) sub \<or> contains sub cs)"

text \<open>\<^verbatim>\<open>s.replace("%d", new)\<close>, left to right without overlap.\<close>

fun replace_percent_d :: "string \<Rightarrow> string \<Rightarrow> string" where
  "replace_percent_d new (a # b # cs) =
     (if a = CHR ''%'' \<and> b = CHR ''d'' then new @ replace_percent_d new cs
      else a # replace_percent_d new (b # cs))"
| "replace_percent_d new cs = cs"

section \<open>Diagnostics\<close>

text \<open>
  A message is kept as the pieces of the f-string that builds it: literal text, a value
  interpolated as it is (\<^verbatim>\<open>{x}\<close>), the \<^verbatim>\<open>repr\<close> of a string (\<^verbatim>\<open>{x!r}\<close>) and the
  \<^verbatim>\<open>repr\<close> of a list of strings. \<open>ReprChar h\<close> is the \<^verbatim>\<open>repr\<close> of the character that
  \<^verbatim>\<open>check_non_utf_chars\<close> decodes from the hexadecimal word \<open>h\<close>.
\<close>

datatype fragment = Lit string | Str string | Repr string | ReprList "string list"
  | ReprChar string

type_synonym msg = "fragment list"

text \<open>
  Modelled from the spec: the class \<^verbatim>\<open>ErrorInfo\<close> of \<^verbatim>\<open>ert.config.parsing\<close>, which
  \<^verbatim>\<open>ert_config.py\<close> imports. The specification gives it a message, an optional source file and
  an optional context token; the token or tokens are those that \<^verbatim>\<open>set_context\<close>,
  \<^verbatim>\<open>set_context_keyword\<close> and \<^verbatim>\<open>set_context_list\<close> receive.
\<close>

datatype origin = NoContext | Context string | ContextKeyword string
  | ContextList "string list"

record error_info =
  message :: msg
  filename :: "string option"
  origin :: origin

text \<open>
  Modelled from the spec: the exception \<^verbatim>\<open>ConfigValidationError\<close> of \<^verbatim>\<open>ert.config.parsing\<close> and
  its constructor \<^verbatim>\<open>from_collected\<close>. An error is built either directly, from a message and
  an optional \<^verbatim>\<open>config_file\<close>, or by \<^verbatim>\<open>ConfigValidationError.from_collected(errors)\<close> from a
  list whose entries are \<^verbatim>\<open>ErrorInfo\<close>s and \<^verbatim>\<open>ConfigValidationError\<close>s. The specification has the
  caller collect the errors into a list that is raised once, as the complete set;
  \<open>FromCollected\<close> keeps the list that \<^verbatim>\<open>from_collected\<close> is handed.
\<close>

datatype cve = Direct msg "string option" | FromCollected "entry list"
  and entry = Info error_info | Exc cve

datatype py_exn =
    ConfigValidationError cve
  | ErtScriptLoadFailure string
  | ValueError string
  | UnicodeDecodeError string
  | IndexError
  | TypeError
  | OtherError string


section \<open>The configuration dictionary\<close>

text \<open>
  Modelled from the spec: the class \<^verbatim>\<open>ConfigDict\<close> of \<^verbatim>\<open>ert.config.parsing\<close>, the result of the
  parser, which the specification describes as a mapping from a keyword to the ordered
  list of its argument tuples. \<^verbatim>\<open>config_dict\<close> maps a keyword to its value: a string for a
  keyword that occurs once, the list of its occurrences otherwise. \<open>None\<close> is a keyword that
  is not in the dictionary.
  An occurrence has the shape the code unpacks: \<^verbatim>\<open>for _, option_name, *values in ...\<close>
  reads a queue option as two strings and the list of the remaining ones,
  \<^verbatim>\<open>for key, val in ...\<close> reads a pair, and \<^verbatim>\<open>job[0]\<close>, \<^verbatim>\<open>job[1:]\<close> read a first string and
  the rest. The private arguments of a \<^verbatim>\<open>FORWARD_MODEL\<close> occurrence are one string (the old
  parser) or a list of key/value pairs (the new parser); an occurrence of length one has
  none. \<open>cfg_warning_infos\<close> is the attribute \<^verbatim>\<open>config_dict.warning_infos\<close>, \<open>None\<close> when
  \<^verbatim>\<open>hasattr\<close> fails. \<open>other_keywords\<close> holds the keywords that only the sub-configurations
  read.
\<close>

datatype fm_args = ArgString string | ArgPairs "(string \<times> string) list"

record config_dict =
  ENSPATH :: "string option"
  RUNPATH_FILE :: "string option"
  RANDOM_SEED :: "string option"
  ECLBASE :: "string option"
  DATA_FILE :: "string option"
  SUMMARY :: "string list list option"
  QUEUE_OPTION :: "(string \<times> string \<times> string list) list option"
  GEN_KW :: "(string \<times> string list) list option"
  SETENV :: "(string \<times> string) list option"
  INSTALL_JOB :: "(string \<times> string) list option"
  INSTALL_JOB_DIRECTORY :: "string list option"
  FORWARD_MODEL :: "(string \<times> fm_args option) list option"
  SIMULATION_JOB :: "(string \<times> string list) list option"
  LOAD_WORKFLOW_JOB :: "(string \<times> string option) list option"
  WORKFLOW_JOB_DIRECTORY :: "string list option"
  LOAD_WORKFLOW :: "(string \<times> string option) list option"
  HOOK_WORKFLOW :: "(string \<times> string) list option"
  RUN_TEMPLATE :: "string list list option"
  cfg_warning_infos :: "msg list option"
  other_keywords :: "(string \<times> string list list) list"

text \<open>\<^verbatim>\<open>config_dict.get(key, [])\<close>.\<close>

definition get_list :: "'a list option \<Rightarrow> 'a list" where
  "get_list v = (case v of None \<Rightarrow> [] | Some xs \<Rightarrow> xs)"

definition DEFAULT_ENSPATH :: string where
  "DEFAULT_ENSPATH = ''storage''"

definition DEFAULT_RUNPATH_FILE :: string where
  "DEFAULT_RUNPATH_FILE = ''.ert_runpath_list''"

section \<open>Objects and the outside world\<close>

text \<open>
  Modelled from the spec: the class \<^verbatim>\<open>SubstitutionList\<close> of \<^verbatim>\<open>ert._c_wrappers.util\<close>. The
  specification describes an ordered mapping from macro keys to replacement strings with
  unique keys, where the last write wins: \<^verbatim>\<open>table[key] = val\<close> replaces the value of a key
  that is there and appends a new key otherwise, which is \<^const>\<open>AList.update\<close>. A Python
  \<^verbatim>\<open>dict\<close> whose order of insertion matters is such a list too.
\<close>

type_synonym subst = "(string \<times> string) list"

text \<open>
  Modelled from the spec: the dataclass \<^verbatim>\<open>ExtJob\<close> of \<^verbatim>\<open>ert.config.ext_job\<close>, the job
  definition of the specification (name, executable, bounds and types of the arguments,
  default mapping, redirections, limits, the two environments), with the attributes that
  \<^verbatim>\<open>ert_config.py\<close> reads under the names it reads them by. \<open>private_args\<close> is the
  \<^verbatim>\<open>SubstitutionList\<close> of the job: its address in the store for an object (\<open>nat ext_job\<close>),
  its content for a job read as a value (\<open>subst ext_job\<close>).
\<close>

record 'p ext_job =
  name :: string
  executable :: string
  stdin_file :: "string option"
  stdout_file :: "string option"
  stderr_file :: "string option"
  start_file :: "string option"
  target_file :: "string option"
  error_file :: "string option"
  max_running :: "int option"
  max_running_minutes :: "int option"
  min_arg :: "int option"
  max_arg :: "int option"
  arglist :: "string list"
  arg_types :: "string list"
  environment :: "(string \<times> string option) list"
  exec_env :: "(string \<times> string option) list"
  default_mapping :: "(string \<times> string) list"
  private_args :: 'p

definition with_private_args :: "'a ext_job \<Rightarrow> 'b \<Rightarrow> 'b ext_job" where
  "with_private_args job p =
     \<lparr>name = name job, executable = executable job, stdin_file = stdin_file job,
      stdout_file = stdout_file job, stderr_file = stderr_file job,
      start_file = start_file job, target_file = target_file job,
      error_file = error_file job, max_running = max_running job,
      max_running_minutes = max_running_minutes job, min_arg = min_arg job,
      max_arg = max_arg job, arglist = arglist job, arg_types = arg_types job,
      environment = environment job, exec_env = exec_env job,
      default_mapping = default_mapping job, private_args = p\<rparr>"

text \<open>
  The store. \<^verbatim>\<open>ExtJob\<close> objects and their \<^verbatim>\<open>SubstitutionList\<close> objects are mutable and shared
  by reference, so each lives at an address: its index in the list of the objects
  allocated so far. A registry and a forward-model list hold addresses. The other
  attributes of a job are values: \<^verbatim>\<open>ert_config.py\<close> never changes one of them in place
  (\<^verbatim>\<open>job.arglist = ...\<close> binds the attribute to a new list). The state also collects what
  \<^verbatim>\<open>warnings.warn\<close> emits, which stays emitted when an exception is raised afterwards.
\<close>

record state =
  ext_jobs :: "nat ext_job list"
  subst_lists :: "subst list"
  warned :: "msg list"

definition warn :: "msg \<Rightarrow> state \<Rightarrow> state" where
  "warn m s = s\<lparr>warned := warned s @ [m]\<rparr>"

definition new_subst_list :: "subst \<Rightarrow> state \<Rightarrow> nat \<times> state" where
  "new_subst_list t s = (length (subst_lists s), s\<lparr>subst_lists := subst_lists s @ [t]\<rparr>)"

text \<open>A job read from its file becomes a new object with a new table of private arguments.\<close>

definition new_ext_job :: "subst ext_job \<Rightarrow> state \<Rightarrow> nat \<times> state" where
  "new_ext_job job s =
     (let (p, s1) = new_subst_list (private_args job) s
      in (length (ext_jobs s1), s1\<lparr>ext_jobs := ext_jobs s1 @ [with_private_args job p]\<rparr>))"

text \<open>
  \<^verbatim>\<open>copy.deepcopy(job)\<close>: a new job object with the same attributes, whose private arguments
  are a new table with the same content.
\<close>

definition deepcopy :: "nat \<Rightarrow> state \<Rightarrow> nat \<times> state" where
  "deepcopy a s =
     (let job = ext_jobs s ! a;
          (p, s1) = new_subst_list (subst_lists s ! private_args job) s
      in (length (ext_jobs s1), s1\<lparr>ext_jobs := ext_jobs s1 @ [job\<lparr>private_args := p\<rparr>]\<rparr>))"

text \<open>\<^verbatim>\<open>job.private_args = SubstitutionList()\<close> for the job object at address \<open>j\<close>.\<close>

definition attach_private_args :: "nat \<Rightarrow> state \<Rightarrow> state" where
  "attach_private_args j s =
     (let (p, s1) = new_subst_list [] s
      in s1\<lparr>ext_jobs := (ext_jobs s1)[j := (ext_jobs s1 ! j)\<lparr>private_args := p\<rparr>]\<rparr>)"

text \<open>\<^verbatim>\<open>job.private_args[key] = val\<close> for the job object at address \<open>j\<close>.\<close>

definition set_private_arg :: "nat \<Rightarrow> string \<Rightarrow> string \<Rightarrow> state \<Rightarrow> state" where
  "set_private_arg j key val s =
     (let p = private_args (ext_jobs s ! j)
      in s\<lparr>subst_lists := (subst_lists s)[p := AList.update key val (subst_lists s ! p)]\<rparr>)"

text \<open>\<^verbatim>\<open>job.arglist = args\<close> for the job object at address \<open>j\<close>.\<close>

definition set_arglist :: "nat \<Rightarrow> string list \<Rightarrow> state \<Rightarrow> state" where
  "set_arglist j args s = s\<lparr>ext_jobs := (ext_jobs s)[j := (ext_jobs s ! j)\<lparr>arglist := args\<rparr>]\<rparr>"

text \<open>What a reader of the job at address \<open>a\<close> sees: its attributes and its private arguments.\<close>

definition job_value :: "state \<Rightarrow> nat \<Rightarrow> subst ext_job" where
  "job_value s a =
     with_private_args (ext_jobs s ! a) (subst_lists s ! private_args (ext_jobs s ! a))"

text \<open>
  The functions and classes that \<^verbatim>\<open>ert_config.py\<close> imports from the standard library and
  from other modules of \<^verbatim>\<open>ert\<close> are parameters, gathered in one record: the built-in
  \<^verbatim>\<open>int\<close> applied to one string (\<open>py_int\<close>, where \<open>None\<close> is its \<^verbatim>\<open>ValueError\<close>), the file
  system (\<^verbatim>\<open>os.path.abspath\<close>,
  \<^verbatim>\<open>os.getcwd\<close>, \<^verbatim>\<open>os.path.isdir\<close>, \<^verbatim>\<open>os.path.isfile\<close>, \<^verbatim>\<open>os.listdir\<close>, reading a file as
  UTF-8), the methods of \<^verbatim>\<open>SubstitutionList\<close>, the loaders \<^verbatim>\<open>ExtJob.from_config_file\<close>,
  \<^verbatim>\<open>WorkflowJob.from_file\<close>, \<^verbatim>\<open>Workflow.from_file\<close>, the \<^verbatim>\<open>from_dict\<close> of the
  sub-configurations, the attributes of the enumeration \<^verbatim>\<open>HookRuntime\<close>, and the text of an
  exception. A value of a class that is opaque here has the type \<open>'obj\<close>. A loader either
  returns or raises (\<open>Inl\<close>).
\<close>

record 'obj world =
  py_int :: "string \<Rightarrow> int option"
  abspath :: "string \<Rightarrow> string"
  getcwd :: string
  isdir :: "string \<Rightarrow> bool"
  isfile :: "string \<Rightarrow> bool"
  listdir :: "string \<Rightarrow> string list"
  read_utf8 :: "string \<Rightarrow> py_exn + unit"
  substitute :: "subst \<Rightarrow> string \<Rightarrow> string"
  substitute_bounded :: "subst \<Rightarrow> string \<Rightarrow> msg \<Rightarrow> nat \<Rightarrow> string"
  substitute_real_iter :: "subst \<Rightarrow> string \<Rightarrow> int \<Rightarrow> int \<Rightarrow> string"
  add_from_string :: "subst \<Rightarrow> string \<Rightarrow> string + subst"
  SubstitutionList_from_dict :: "config_dict \<Rightarrow> subst"
  ExtJob_from_config_file :: "string option \<Rightarrow> string \<Rightarrow> py_exn + subst ext_job"
  WorkflowJob_from_file :: "string \<Rightarrow> string option \<Rightarrow> py_exn + 'obj"
  workflow_job_name :: "'obj \<Rightarrow> string"
  Workflow_from_file :: "string \<Rightarrow> subst \<Rightarrow> (string \<times> 'obj) list \<Rightarrow> py_exn + 'obj"
  HookRuntime :: "string \<Rightarrow> 'obj option"
  EnsembleConfig_from_dict :: "config_dict \<Rightarrow> py_exn + 'obj"
  refcase :: "'obj \<Rightarrow> 'obj"
  ModelConfig_from_dict :: "'obj \<Rightarrow> config_dict \<Rightarrow> py_exn + 'obj"
  runpath_format_string :: "'obj \<Rightarrow> string"
  eclbase_format_string :: "'obj \<Rightarrow> string"
  AnalysisConfig_from_dict :: "config_dict \<Rightarrow> py_exn + 'obj"
  QueueConfig_from_dict :: "config_dict \<Rightarrow> py_exn + 'obj"
  str_of_error :: "cve \<Rightarrow> string"
  get_cli_message :: "cve \<Rightarrow> string"

section \<open>Default injection\<close>

text \<open>
  \<^verbatim>\<open>ErtConfig.apply_config_content_defaults\<close> updates the dictionary in place; the model
  returns the updated dictionary.
\<close>

definition apply_config_content_defaults :: "config_dict \<Rightarrow> string \<Rightarrow> config_dict" where
  "apply_config_content_defaults content_dict config_dir =
     (let d1 = (if ENSPATH content_dict = None
                then content_dict\<lparr>ENSPATH := Some (os_path_join config_dir DEFAULT_ENSPATH)\<rparr>
                else content_dict)
      in case RUNPATH_FILE d1 of
           None \<Rightarrow> d1\<lparr>RUNPATH_FILE := Some (os_path_join config_dir DEFAULT_RUNPATH_FILE)\<rparr>
         | Some p \<Rightarrow>
             if \<not> os_path_isabs p
             then d1\<lparr>RUNPATH_FILE := Some (os_path_normpath (os_path_join config_dir p))\<rparr>
             else d1)"

section \<open>Validation of the dictionary\<close>

text \<open>
  \<^verbatim>\<open>ErtConfig._validate_queue_option_max_running\<close>. \<^verbatim>\<open>int(*values)\<close> is \<^verbatim>\<open>int()\<close>, that is 0,
  for no value, is \<^verbatim>\<open>int\<close> of the string for one value (\<open>py_int W\<close>, whose \<^verbatim>\<open>ValueError\<close> is
  caught), and raises \<^verbatim>\<open>TypeError\<close>, which the function does not catch, for two or more
  (the second would be the base, and is a string). The messages are built only where
  \<open>values\<close> is one string.
\<close>

fun max_running_loop ::
  "'obj world \<Rightarrow> string \<Rightarrow> (string \<times> string \<times> string list) list \<Rightarrow> entry list \<Rightarrow>
   py_exn + entry list" where
  "max_running_loop W config_path [] errors = Inr errors"
| "max_running_loop W config_path ((q, option_name, vals) # rest) errors =
     (if option_name = ''MAX_RUNNING'' then
        (case vals of
           [] \<Rightarrow> max_running_loop W config_path rest errors
         | [v] \<Rightarrow>
             (case py_int W v of
                Some int_val \<Rightarrow>
                  if int_val < 0 then
                    max_running_loop W config_path rest
                      (errors @ [Info \<lparr>message = [Lit ''QUEUE_OPTION MAX_RUNNING is negative: '', Repr v],
                                       filename = Some config_path,
                                       origin = ContextList vals\<rparr>])
                  else max_running_loop W config_path rest errors
              | None \<Rightarrow>
                  max_running_loop W config_path rest
                    (errors @ [Info \<lparr>message = [Lit ''QUEUE_OPTION MAX_RUNNING is not an integer: '', Repr v],
                                     filename = Some config_path,
                                     origin = ContextList vals\<rparr>]))
         | _ \<Rightarrow> Inl TypeError)
      else max_running_loop W config_path rest errors)"

definition validate_queue_option_max_running ::
  "'obj world \<Rightarrow> string \<Rightarrow> config_dict \<Rightarrow> py_exn + entry list" where
  "validate_queue_option_max_running W config_path config_dict =
     max_running_loop W config_path (get_list (QUEUE_OPTION config_dict)) []"

text \<open>
  \<^verbatim>\<open>ErtConfig._validate_dict\<close>. \<^verbatim>\<open>config_dict[SUMMARY][0][0]\<close> raises \<^verbatim>\<open>IndexError\<close> when the
  list of occurrences, or the first occurrence, is empty.
\<close>

definition validate_dict :: "config_dict \<Rightarrow> string \<Rightarrow> py_exn + entry list" where
  "validate_dict config_dict config_file =
     (if SUMMARY config_dict \<noteq> None \<and> ECLBASE config_dict = None then
        (case SUMMARY config_dict of
           Some ((kw # _) # _) \<Rightarrow>
             Inr [Info \<lparr>message = [Lit ''When using SUMMARY keyword, the config must also specify ECLBASE''],
                       filename = Some config_file,
                       origin = ContextKeyword kw\<rparr>]
         | _ \<Rightarrow> Inl IndexError)
      else Inr [])"

text \<open>The dictionary with no keyword.\<close>

definition empty_config :: config_dict where
  "empty_config =
     \<lparr>ENSPATH = None, RUNPATH_FILE = None, RANDOM_SEED = None, ECLBASE = None,
      DATA_FILE = None, SUMMARY = None, QUEUE_OPTION = None, GEN_KW = None, SETENV = None,
      INSTALL_JOB = None, INSTALL_JOB_DIRECTORY = None, FORWARD_MODEL = None,
      SIMULATION_JOB = None, LOAD_WORKFLOW_JOB = None, WORKFLOW_JOB_DIRECTORY = None,
      LOAD_WORKFLOW = None, HOOK_WORKFLOW = None, RUN_TEMPLATE = None,
      cfg_warning_infos = None, other_keywords = []\<rparr>"

text \<open>
  For the statement about \<^verbatim>\<open>MAX_RUNNING\<close>: the occurrences with one value that are in
  error, and the error that the loop appends for one of them.
\<close>

definition offending :: "'obj world \<Rightarrow> string \<times> string \<times> string list \<Rightarrow> bool" where
  "offending W e = (case e of (q, option_name, vals) \<Rightarrow>
     option_name = ''MAX_RUNNING'' \<and>
     (case vals of [v] \<Rightarrow> (case py_int W v of None \<Rightarrow> True | Some i \<Rightarrow> i < 0) | _ \<Rightarrow> False))"

definition max_running_error ::
  "'obj world \<Rightarrow> string \<Rightarrow> string \<times> string \<times> string list \<Rightarrow> entry" where
  "max_running_error W config_path e = (case e of (q, option_name, vals) \<Rightarrow>
     Info \<lparr>message =
             [Lit (if py_int W (hd vals) = None
                   then ''QUEUE_OPTION MAX_RUNNING is not an integer: ''
                   else ''QUEUE_OPTION MAX_RUNNING is negative: ''),
              Repr (hd vals)],
           filename = Some config_path,
           origin = ContextList vals\<rparr>)"

section \<open>The forward model\<close>

text \<open>\<^verbatim>\<open>if args:\<close> for the private arguments of an occurrence.\<close>

definition truthy :: "fm_args \<Rightarrow> bool" where
  "truthy args = (case args of ArgString str \<Rightarrow> str \<noteq> [] | ArgPairs ps \<Rightarrow> ps \<noteq> [])"

text \<open>\<^verbatim>\<open>for key, val in args: job.private_args[key] = val\<close>.\<close>

fun set_private_args :: "nat \<Rightarrow> (string \<times> string) list \<Rightarrow> state \<Rightarrow> state" where
  "set_private_args j [] s = s"
| "set_private_args j ((key, val) # ps) s = set_private_args j ps (set_private_arg j key val s)"

text \<open>
  The first loop of \<^verbatim>\<open>ErtConfig.read_forward_model\<close>, over the \<^verbatim>\<open>FORWARD_MODEL\<close> occurrences.
  \<^verbatim>\<open>add_from_string\<close> fills the table that was just attached, which is empty; its
  \<^verbatim>\<open>ValueError\<close> is caught. The loop raises nothing.
\<close>

fun forward_model_loop ::
  "'obj world \<Rightarrow> (string \<times> nat) list \<Rightarrow> subst \<Rightarrow> string \<Rightarrow> (string \<times> fm_args option) list \<Rightarrow>
   entry list \<Rightarrow> nat list \<Rightarrow> state \<Rightarrow> entry list \<times> nat list \<times> state" where
  "forward_model_loop W installed substitutions config_file [] errors jobs s = (errors, jobs, s)"
| "forward_model_loop W installed substitutions config_file ((unsubstituted_job_name, given) # rest)
     errors jobs s =
     (let args = (case given of Some a \<Rightarrow> a | None \<Rightarrow> ArgPairs []);
          job_name = substitute W substitutions unsubstituted_job_name
      in case map_of installed job_name of
           None \<Rightarrow>
             forward_model_loop W installed substitutions config_file rest
               (errors @ [Exc (Direct [Lit ''Could not find job '', Repr job_name,
                                       Lit '' in list of installed jobs: '',
                                       ReprList (map fst installed)]
                                 (Some config_file))])
               jobs s
         | Some a \<Rightarrow>
             (let (job, s1) = deepcopy a s in
              if truthy args then
                (let s2 = attach_private_args job s1 in
                 case args of
                   ArgString str \<Rightarrow>
                     (case add_from_string W [] str of
                        Inl err \<Rightarrow>
                          forward_model_loop W installed substitutions config_file rest
                            (errors @ [Exc (Direct [Str err, Lit '': '', Lit [CHR 0x27],
                                                    Lit ''FORWARD_MODEL '', Str job_name,
                                                    Lit ''('', Str str, Lit '')'', Lit [CHR 0x27]]
                                              (Some config_file))])
                            jobs s2
                      | Inr t \<Rightarrow>
                          forward_model_loop W installed substitutions config_file rest errors
                            (jobs @ [job])
                            (s2\<lparr>subst_lists :=
                                  (subst_lists s2)[private_args (ext_jobs s2 ! job) := t]\<rparr>))
                 | ArgPairs ps \<Rightarrow>
                     forward_model_loop W installed substitutions config_file rest errors
                       (jobs @ [job]) (set_private_args job ps s2))
              else
                forward_model_loop W installed substitutions config_file rest errors
                  (jobs @ [job]) s1))"

text \<open>The second loop, over the \<^verbatim>\<open>SIMULATION_JOB\<close> occurrences.\<close>

fun simulation_job_loop ::
  "(string \<times> nat) list \<Rightarrow> string \<Rightarrow> (string \<times> string list) list \<Rightarrow>
   entry list \<Rightarrow> nat list \<Rightarrow> state \<Rightarrow> entry list \<times> nat list \<times> state" where
  "simulation_job_loop installed config_file [] errors jobs s = (errors, jobs, s)"
| "simulation_job_loop installed config_file ((job_name, args) # rest) errors jobs s =
     (case map_of installed job_name of
        None \<Rightarrow>
          simulation_job_loop installed config_file rest
            (errors @ [Exc (Direct [Lit ''Could not find job '', Repr job_name,
                                    Lit '' in list of installed jobs.'']
                              (Some config_file))])
            jobs s
      | Some a \<Rightarrow>
          (let (job, s1) = deepcopy a s
           in simulation_job_loop installed config_file rest errors (jobs @ [job])
                (set_arglist job args s1)))"

definition read_forward_model ::
  "'obj world \<Rightarrow> (string \<times> nat) list \<Rightarrow> subst \<Rightarrow> config_dict \<Rightarrow> string \<Rightarrow> state \<Rightarrow>
   (py_exn + nat list) \<times> state" where
  "read_forward_model W installed substitutions config_dict config_file s =
     (let (errors1, jobs1, s1) =
            forward_model_loop W installed substitutions config_file
              (get_list (FORWARD_MODEL config_dict)) [] [] s;
          (errors, jobs, s2) =
            simulation_job_loop installed config_file
              (get_list (SIMULATION_JOB config_dict)) errors1 jobs1 s1
      in if errors \<noteq> [] then (Inl (ConfigValidationError (FromCollected errors)), s2)
         else (Inr jobs, s2))"

section \<open>The registry of installed jobs\<close>

definition duplicate_warning :: "string \<Rightarrow> string \<Rightarrow> string \<Rightarrow> msg" where
  "duplicate_warning job_name chosen previous_executable =
     [Lit ''Duplicate forward model job with name '', Repr job_name,
      Lit '', choosing '', Repr chosen, Lit '' over '', Repr previous_executable]"

text \<open>
  The end of both loops of \<^verbatim>\<open>ErtConfig._installed_jobs_from_dict\<close>: the warning when the name is
  already in \<open>jobs\<close>, then \<^verbatim>\<open>jobs[name] = new_job\<close>. The warning reads the executable of the job
  that the name is bound to so far.
\<close>

definition register_job ::
  "string \<Rightarrow> string \<Rightarrow> subst ext_job \<Rightarrow> (string \<times> nat) list \<Rightarrow> state \<Rightarrow> (string \<times> nat) list \<times> state" where
  "register_job job_name source new_job jobs s =
     (let (a, s1) = new_ext_job new_job s;
          s2 = (case map_of jobs job_name of
                  Some old \<Rightarrow>
                    warn (duplicate_warning job_name source (executable (ext_jobs s1 ! old))) s1
                | None \<Rightarrow> s1)
      in (AList.update job_name a jobs, s2))"

text \<open>
  The loop over the \<^verbatim>\<open>INSTALL_JOB\<close> occurrences. Only \<^verbatim>\<open>ConfigValidationError\<close> is caught; any
  other exception of the loader leaves the function.
\<close>

fun install_job_loop ::
  "'obj world \<Rightarrow> (string \<times> string) list \<Rightarrow> entry list \<Rightarrow> (string \<times> nat) list \<Rightarrow> state \<Rightarrow>
   (py_exn + entry list \<times> (string \<times> nat) list) \<times> state" where
  "install_job_loop W [] errors jobs s = (Inr (errors, jobs), s)"
| "install_job_loop W ((job_name, path) # rest) errors jobs s =
     (let job_config_file = abspath W path
      in case ExtJob_from_config_file W (Some job_name) job_config_file of
           Inl (ConfigValidationError e) \<Rightarrow> install_job_loop W rest (errors @ [Exc e]) jobs s
         | Inl other \<Rightarrow> (Inl other, s)
         | Inr new_job \<Rightarrow>
             (let (jobs1, s1) = register_job job_name job_config_file new_job jobs s
              in install_job_loop W rest errors jobs1 s1))"

text \<open>The loop over the files of one job directory.\<close>

fun job_files_loop ::
  "'obj world \<Rightarrow> string \<Rightarrow> string list \<Rightarrow> entry list \<Rightarrow> (string \<times> nat) list \<Rightarrow> state \<Rightarrow>
   (py_exn + entry list \<times> (string \<times> nat) list) \<times> state" where
  "job_files_loop W job_path [] errors jobs s = (Inr (errors, jobs), s)"
| "job_files_loop W job_path (file_name # rest) errors jobs s =
     (let full_path = abspath W (os_path_join job_path file_name)
      in if \<not> isfile W full_path then job_files_loop W job_path rest errors jobs s
         else case ExtJob_from_config_file W None full_path of
                Inl (ConfigValidationError e) \<Rightarrow>
                  job_files_loop W job_path rest (errors @ [Exc e]) jobs s
              | Inl other \<Rightarrow> (Inl other, s)
              | Inr new_job \<Rightarrow>
                  (let (jobs1, s1) = register_job (name new_job) full_path new_job jobs s
                   in job_files_loop W job_path rest errors jobs1 s1))"

text \<open>The loop over the \<^verbatim>\<open>INSTALL_JOB_DIRECTORY\<close> occurrences.\<close>

fun install_job_directory_loop ::
  "'obj world \<Rightarrow> string list \<Rightarrow> entry list \<Rightarrow> (string \<times> nat) list \<Rightarrow> state \<Rightarrow>
   (py_exn + entry list \<times> (string \<times> nat) list) \<times> state" where
  "install_job_directory_loop W [] errors jobs s = (Inr (errors, jobs), s)"
| "install_job_directory_loop W (job_path # rest) errors jobs s =
     (if \<not> isdir W job_path then
        install_job_directory_loop W rest
          (errors @ [Exc (Direct [Lit ''Unable to locate job directory '', Repr job_path] None)])
          jobs s
      else
        let files = listdir W job_path
        in if filter (\<lambda>f. isfile W (abspath W (os_path_join job_path f))) files = [] then
             install_job_directory_loop W rest errors jobs
               (warn [Lit ''No files found in job directory '', Str job_path] s)
           else case job_files_loop W job_path files errors jobs s of
                  (Inl e, s1) \<Rightarrow> (Inl e, s1)
                | (Inr (errors1, jobs1), s1) \<Rightarrow>
                    install_job_directory_loop W rest errors1 jobs1 s1)"

definition installed_jobs_from_dict ::
  "'obj world \<Rightarrow> config_dict \<Rightarrow> state \<Rightarrow> (py_exn + (string \<times> nat) list) \<times> state" where
  "installed_jobs_from_dict W config_dict s =
     (case install_job_loop W (get_list (INSTALL_JOB config_dict)) [] [] s of
        (Inl e, s1) \<Rightarrow> (Inl e, s1)
      | (Inr (errors1, jobs1), s1) \<Rightarrow>
          (case install_job_directory_loop W (get_list (INSTALL_JOB_DIRECTORY config_dict))
                  errors1 jobs1 s1 of
             (Inl e, s2) \<Rightarrow> (Inl e, s2)
           | (Inr (errors, jobs), s2) \<Rightarrow>
               if errors \<noteq> [] then (Inl (ConfigValidationError (FromCollected errors)), s2)
               else (Inr jobs, s2)))"

section \<open>Workflows and hooks\<close>

text \<open>\<^verbatim>\<open>posixpath.basename\<close>: what follows the last separator.\<close>

definition os_path_basename :: "string \<Rightarrow> string" where
  "os_path_basename p = rev (takeWhile (\<lambda>x. x \<noteq> sep) (rev p))"

text \<open>\<^verbatim>\<open>s.replace("\n", ";")\<close>.\<close>

definition newlines_to_semicolons :: "string \<Rightarrow> string" where
  "newlines_to_semicolons s = map (\<lambda>c. if c = CHR 0x0A then CHR '';'' else c) s"

definition load_failed_warning :: "string \<Rightarrow> string \<Rightarrow> msg" where
  "load_failed_warning path err =
     [Lit ''Loading workflow job '', Repr path, Lit '' failed with '', Lit [CHR 0x27], Str err,
      Lit [CHR 0x27], Lit ''. It will not be loaded.'']"

text \<open>
  The loop of \<^verbatim>\<open>ErtConfig._workflows_from_dict\<close> over the \<^verbatim>\<open>LOAD_WORKFLOW_JOB\<close> occurrences: a
  script that cannot be loaded is a warning, a \<^verbatim>\<open>ConfigValidationError\<close> is collected.
\<close>

fun load_workflow_job_loop ::
  "'obj world \<Rightarrow> (string \<times> string option) list \<Rightarrow> entry list \<Rightarrow> (string \<times> 'obj) list \<Rightarrow> state \<Rightarrow>
   (py_exn + entry list \<times> (string \<times> 'obj) list) \<times> state" where
  "load_workflow_job_loop W [] errors wjobs s = (Inr (errors, wjobs), s)"
| "load_workflow_job_loop W ((path, given_name) # rest) errors wjobs s =
     (case WorkflowJob_from_file W path given_name of
        Inr new_job \<Rightarrow>
          load_workflow_job_loop W rest errors
            (AList.update (workflow_job_name W new_job) new_job wjobs) s
      | Inl (ErtScriptLoadFailure err) \<Rightarrow>
          load_workflow_job_loop W rest errors wjobs (warn (load_failed_warning path err) s)
      | Inl (ConfigValidationError err) \<Rightarrow>
          load_workflow_job_loop W rest
            (errors @ [Info \<lparr>message = [Str (newlines_to_semicolons (str_of_error W err))],
                             filename = Some path, origin = Context path\<rparr>])
            wjobs s
      | Inl other \<Rightarrow> (Inl other, s))"

text \<open>The loop over the files of one workflow job directory.\<close>

fun workflow_job_files_loop ::
  "'obj world \<Rightarrow> string \<Rightarrow> string list \<Rightarrow> entry list \<Rightarrow> (string \<times> 'obj) list \<Rightarrow> state \<Rightarrow>
   (py_exn + entry list \<times> (string \<times> 'obj) list) \<times> state" where
  "workflow_job_files_loop W job_path [] errors wjobs s = (Inr (errors, wjobs), s)"
| "workflow_job_files_loop W job_path (file_name # rest) errors wjobs s =
     (let full_path = os_path_join job_path file_name
      in case WorkflowJob_from_file W full_path None of
           Inr new_job \<Rightarrow>
             workflow_job_files_loop W job_path rest errors
               (AList.update (workflow_job_name W new_job) new_job wjobs) s
         | Inl (ErtScriptLoadFailure err) \<Rightarrow>
             workflow_job_files_loop W job_path rest errors wjobs
               (warn (load_failed_warning full_path err) s)
         | Inl (ConfigValidationError err) \<Rightarrow>
             workflow_job_files_loop W job_path rest
               (errors @ [Info \<lparr>message = [Str (str_of_error W err)],
                                filename = Some full_path, origin = Context job_path\<rparr>])
               wjobs s
         | Inl other \<Rightarrow> (Inl other, s))"

text \<open>The loop over the \<^verbatim>\<open>WORKFLOW_JOB_DIRECTORY\<close> occurrences.\<close>

fun workflow_job_directory_loop ::
  "'obj world \<Rightarrow> string list \<Rightarrow> entry list \<Rightarrow> (string \<times> 'obj) list \<Rightarrow> state \<Rightarrow>
   (py_exn + entry list \<times> (string \<times> 'obj) list) \<times> state" where
  "workflow_job_directory_loop W [] errors wjobs s = (Inr (errors, wjobs), s)"
| "workflow_job_directory_loop W (job_path # rest) errors wjobs s =
     (if \<not> isdir W job_path then
        workflow_job_directory_loop W rest errors wjobs
          (warn [Lit ''Unable to open job directory '', Str job_path] s)
      else case workflow_job_files_loop W job_path (listdir W job_path) errors wjobs s of
             (Inl e, s1) \<Rightarrow> (Inl e, s1)
           | (Inr (errors1, wjobs1), s1) \<Rightarrow>
               workflow_job_directory_loop W rest errors1 wjobs1 s1)"

text \<open>
  The loop over the \<^verbatim>\<open>LOAD_WORKFLOW\<close> occurrences: a workflow that fails to load is a warning
  and is not entered.
\<close>

fun load_workflow_loop ::
  "'obj world \<Rightarrow> subst \<Rightarrow> (string \<times> 'obj) list \<Rightarrow> (string \<times> string option) list \<Rightarrow>
   (string \<times> 'obj) list \<Rightarrow> state \<Rightarrow> (py_exn + (string \<times> 'obj) list) \<times> state" where
  "load_workflow_loop W substitutions wjobs [] wflows s = (Inr wflows, s)"
| "load_workflow_loop W substitutions wjobs ((path, given_name) # rest) wflows s =
     (let file_name = (case given_name of None \<Rightarrow> os_path_basename path | Some n \<Rightarrow> n);
          existed = (map_of wflows file_name \<noteq> None)
      in case Workflow_from_file W path substitutions wjobs of
           Inr flow \<Rightarrow>
             load_workflow_loop W substitutions wjobs rest (AList.update file_name flow wflows)
               (if existed then warn [Lit ''Workflow '', Repr file_name, Lit '' was added twice''] s
                else s)
         | Inl (ConfigValidationError err) \<Rightarrow>
             load_workflow_loop W substitutions wjobs rest wflows
               (warn [Lit ''Encountered the following error(s) while reading workflow '',
                      Repr file_name, Lit ''. It will not be loaded: '',
                      Str (get_cli_message W err)] s)
         | Inl other \<Rightarrow> (Inl other, s))"

text \<open>
  The loop over the \<^verbatim>\<open>HOOK_WORKFLOW\<close> occurrences. \<^verbatim>\<open>hasattr(HookRuntime, mode_name)\<close> and
  \<^verbatim>\<open>getattr(HookRuntime, mode_name)\<close> are the lookup \<open>HookRuntime W mode_name\<close>;
  \<open>hooked\<close> is the \<^verbatim>\<open>defaultdict(list)\<close>. The loop raises nothing and emits no warning.
\<close>

fun hook_workflow_loop ::
  "'obj world \<Rightarrow> (string \<times> 'obj) list \<Rightarrow> (string \<times> string) list \<Rightarrow> entry list \<Rightarrow>
   ('obj \<times> 'obj list) list \<Rightarrow> entry list \<times> ('obj \<times> 'obj list) list" where
  "hook_workflow_loop W wflows [] errors hooked = (errors, hooked)"
| "hook_workflow_loop W wflows ((hook_name, mode_name) # rest) errors hooked =
     (case HookRuntime W mode_name of
        None \<Rightarrow>
          hook_workflow_loop W wflows rest
            (errors @ [Exc (Direct [Lit ''Run mode '', Repr mode_name,
                                    Lit '' not supported for Hook Workflow''] None)])
            hooked
      | Some mode \<Rightarrow>
          (case map_of wflows hook_name of
             None \<Rightarrow>
               hook_workflow_loop W wflows rest
                 (errors @ [Info \<lparr>message = [Lit ''Cannot setup hook for non-existing job name '',
                                              Repr hook_name],
                                  filename = None, origin = Context hook_name\<rparr>])
                 hooked
           | Some flow \<Rightarrow>
               hook_workflow_loop W wflows rest errors
                 (AList.update mode (get_list (map_of hooked mode) @ [flow]) hooked)))"

definition workflows_from_dict ::
  "'obj world \<Rightarrow> config_dict \<Rightarrow> subst \<Rightarrow> state \<Rightarrow>
   (py_exn + (string \<times> 'obj) list \<times> (string \<times> 'obj) list \<times> ('obj \<times> 'obj list) list) \<times> state" where
  "workflows_from_dict W content_dict substitutions s =
     (case load_workflow_job_loop W (get_list (LOAD_WORKFLOW_JOB content_dict)) [] [] s of
        (Inl e, s1) \<Rightarrow> (Inl e, s1)
      | (Inr (errors1, wjobs1), s1) \<Rightarrow>
     (case workflow_job_directory_loop W (get_list (WORKFLOW_JOB_DIRECTORY content_dict))
             errors1 wjobs1 s1 of
        (Inl e, s2) \<Rightarrow> (Inl e, s2)
      | (Inr (errors2, wjobs), s2) \<Rightarrow>
          if errors2 \<noteq> [] then (Inl (ConfigValidationError (FromCollected errors2)), s2)
          else
     (case load_workflow_loop W substitutions wjobs (get_list (LOAD_WORKFLOW content_dict)) [] s2 of
        (Inl e, s3) \<Rightarrow> (Inl e, s3)
      | (Inr wflows, s3) \<Rightarrow>
          (let (errors, hooked) =
                 hook_workflow_loop W wflows (get_list (HOOK_WORKFLOW content_dict)) [] []
           in if errors \<noteq> [] then (Inl (ConfigValidationError (FromCollected errors)), s3)
              else (Inr (wjobs, wflows, hooked), s3)))))"

section \<open>The resolved configuration\<close>

text \<open>
  The dataclass \<^verbatim>\<open>ErtConfig\<close>. The registry and the forward-model list hold the addresses of
  their job objects; \<open>model_config\<close> is \<open>None\<close> until \<^verbatim>\<open>ModelConfig.from_dict\<close> has returned.
\<close>

record 'obj ert_config =
  substitution_list :: subst
  ensemble_config :: 'obj
  ens_path :: string
  env_vars :: "(string \<times> string) list"
  random_seed :: "string option"
  analysis_config :: 'obj
  queue_config :: 'obj
  workflow_jobs :: "(string \<times> 'obj) list"
  workflows :: "(string \<times> 'obj) list"
  hooked_workflows :: "('obj \<times> 'obj list) list"
  runpath_file :: string
  ert_templates :: "string list list"
  installed_jobs :: "(string \<times> nat) list"
  forward_model_list :: "nat list"
  model_config :: "'obj option"
  user_config_file :: string
  config_path :: string
  warning_infos :: "msg list"

section \<open>The execution descriptor\<close>

text \<open>The descriptor is a JSON value; a dictionary keeps the order of its keys.\<close>

datatype json = JNull | JStr string | JInt int | JList "json list"
  | JDict "(string \<times> json) list"

definition json_opt_str :: "string option \<Rightarrow> json" where
  "json_opt_str v = (case v of None \<Rightarrow> JNull | Some str \<Rightarrow> JStr str)"

definition json_opt_int :: "int option \<Rightarrow> json" where
  "json_opt_int v = (case v of None \<Rightarrow> JNull | Some i \<Rightarrow> JInt i)"

text \<open>\<^verbatim>\<open>str(n)\<close> for a natural number.\<close>

definition digit_char :: "nat \<Rightarrow> char" where
  "digit_char d = ''0123456789'' ! d"

function str_nat :: "nat \<Rightarrow> string" where
  "str_nat n = (if n < 10 then [digit_char n] else str_nat (n div 10) @ [digit_char (n mod 10)])"
  by pat_completeness auto
termination
  by (relation "measure id") auto

declare str_nat.simps [simp del]

text \<open>
  The class \<^verbatim>\<open>Substituter\<close> of \<^verbatim>\<open>forward_model_data_to_json\<close>: the hint, and the copy of the
  private arguments of the job with the realization and the iteration substituted.
\<close>

record substituter =
  substitution_context_hint :: msg
  copy_private_args :: subst

definition Substituter ::
  "'obj world \<Rightarrow> subst \<Rightarrow> int \<Rightarrow> int \<Rightarrow> subst ext_job \<Rightarrow> substituter" where
  "Substituter W ctxt iens itr job =
     (let job_args = join_with (CHR '','') (map (\<lambda>(key, val). key @ ''='' @ val) (private_args job))
      in \<lparr>substitution_context_hint =
             [Lit ''parsing forward model job `FORWARD_MODEL '', Str (name job), Lit ''('',
              Str job_args,
              Lit '')` - reconstructed, with defines applied during parsing''],
           copy_private_args =
             fold (\<lambda>(key, val) t. AList.update key (substitute_real_iter W ctxt val iens itr) t)
               (private_args job) []\<rparr>)"

text \<open>\<^verbatim>\<open>Substituter.substitute\<close> on a string; \<^verbatim>\<open>None\<close> is returned as it is.\<close>

definition substituter_substitute ::
  "'obj world \<Rightarrow> subst \<Rightarrow> int \<Rightarrow> int \<Rightarrow> substituter \<Rightarrow> string \<Rightarrow> string" where
  "substituter_substitute W ctxt iens itr sub str =
     substitute_real_iter W ctxt
       (substitute_bounded W (copy_private_args sub) str (substitution_context_hint sub) 1)
       iens itr"

text \<open>
  \<^verbatim>\<open>Substituter.filter_env_dict\<close>, for the function \<open>subst_fn\<close> that \<^verbatim>\<open>self.substitute\<close> is on
  strings. \<^verbatim>\<open>new_value[0]\<close> raises \<^verbatim>\<open>IndexError\<close> on the empty string. The second component
  is what \<^verbatim>\<open>logger.warning\<close> receives.
\<close>

fun filter_env_loop ::
  "(string \<Rightarrow> string) \<Rightarrow> (string \<times> string option) list \<Rightarrow> (string \<times> string option) list \<Rightarrow>
   msg list \<Rightarrow> py_exn + (string \<times> string option) list \<times> msg list" where
  "filter_env_loop subst_fn [] result log = Inr (result, log)"
| "filter_env_loop subst_fn ((key, val) # rest) result log =
     (let new_key = subst_fn key;
          new_value = map_option subst_fn val
      in case new_value of
           None \<Rightarrow> filter_env_loop subst_fn rest (AList.update new_key None result) log
         | Some v \<Rightarrow>
             if v = [] then Inl IndexError
             else if \<not> (hd v = CHR ''<'' \<and> last v = CHR ''>'') then
               filter_env_loop subst_fn rest (AList.update new_key (Some v) result) log
             else
               filter_env_loop subst_fn rest result
                 (log @ [[Lit ''Environment variable '', Str new_key,
                          Lit '' skipped due to unmatched define '', Str v]]))"

definition filter_env_dict ::
  "(string \<Rightarrow> string) \<Rightarrow> (string \<times> string option) list \<Rightarrow>
   py_exn + (string \<times> string option) list option \<times> msg list" where
  "filter_env_dict subst_fn d =
     (case filter_env_loop subst_fn d [] [] of
        Inl e \<Rightarrow> Inl e
      | Inr (result, log) \<Rightarrow> if result = [] then Inr (None, log) else Inr (Some result, log))"

definition json_env :: "(string \<times> string option) list option \<Rightarrow> json" where
  "json_env v =
     (case v of None \<Rightarrow> JNull
      | Some d \<Rightarrow> JDict (map (\<lambda>(key, val). (key, json_opt_str val)) d))"

text \<open>\<^verbatim>\<open>handle_default\<close>: \<^verbatim>\<open>job.default_mapping.get(arg, arg)\<close>.\<close>

definition handle_default :: "subst ext_job \<Rightarrow> string \<Rightarrow> string" where
  "handle_default job arg = (case map_of (default_mapping job) arg of Some v \<Rightarrow> v | None \<Rightarrow> arg)"

text \<open>
  One entry of \<^verbatim>\<open>jobList\<close>, for the job \<open>job\<close> at position \<open>idx\<close> of the forward model. The
  entry is built in the order of the dictionary display, so the first exception raised
  is the one of \<^verbatim>\<open>environment\<close> if there is one, of \<^verbatim>\<open>exec_env\<close> otherwise.
\<close>

definition job_entry ::
  "'obj world \<Rightarrow> subst \<Rightarrow> int \<Rightarrow> int \<Rightarrow> nat \<Rightarrow> subst ext_job \<Rightarrow> py_exn + json \<times> msg list" where
  "job_entry W ctxt iens itr idx job =
     (let sub = Substituter W ctxt iens itr job;
          subst_fn = substituter_substitute W ctxt iens itr sub;
          with_idx = (\<lambda>file. case file of
                         None \<Rightarrow> JNull
                       | Some f \<Rightarrow> if f = [] then JNull
                                  else JStr (subst_fn f @ ''.'' @ str_nat idx))
      in case filter_env_dict subst_fn (environment job) of
           Inl e \<Rightarrow> Inl e
         | Inr (env, log1) \<Rightarrow>
       (case filter_env_dict subst_fn (exec_env job) of
           Inl e \<Rightarrow> Inl e
         | Inr (xenv, log2) \<Rightarrow>
             Inr (JDict
                   [(''name'', JStr (subst_fn (name job))),
                    (''executable'', JStr (subst_fn (executable job))),
                    (''target_file'', json_opt_str (map_option subst_fn (target_file job))),
                    (''error_file'', json_opt_str (map_option subst_fn (error_file job))),
                    (''start_file'', json_opt_str (map_option subst_fn (start_file job))),
                    (''stdout'', with_idx (stdout_file job)),
                    (''stderr'', with_idx (stderr_file job)),
                    (''stdin'', json_opt_str (map_option subst_fn (stdin_file job))),
                    (''argList'',
                       JList (map (\<lambda>arg. JStr (handle_default job (subst_fn arg))) (arglist job))),
                    (''environment'', json_env env),
                    (''exec_env'', json_env xenv),
                    (''max_running_minutes'', json_opt_int (max_running_minutes job)),
                    (''max_running'', json_opt_int (max_running job)),
                    (''min_arg'', json_opt_int (min_arg job)),
                    (''arg_types'', JList (map JStr (arg_types job))),
                    (''max_arg'', json_opt_int (max_arg job))],
                  log1 @ log2)))"

fun job_entries ::
  "'obj world \<Rightarrow> subst \<Rightarrow> int \<Rightarrow> int \<Rightarrow> nat \<Rightarrow> subst ext_job list \<Rightarrow> py_exn + json list \<times> msg list" where
  "job_entries W ctxt iens itr idx [] = Inr ([], [])"
| "job_entries W ctxt iens itr idx (job # rest) =
     (case job_entry W ctxt iens itr idx job of
        Inl e \<Rightarrow> Inl e
      | Inr (j, log1) \<Rightarrow>
          (case job_entries W ctxt iens itr (Suc idx) rest of
             Inl e \<Rightarrow> Inl e
           | Inr (js, log2) \<Rightarrow> Inr (j # js, log1 @ log2)))"

text \<open>
  \<^verbatim>\<open>ErtConfig.forward_model_data_to_json\<close>, for a configuration whose job objects are in the
  store \<open>s\<close>. \<open>path_parent\<close> and \<open>path_name\<close> are \<^verbatim>\<open>str(Path(p).parent)\<close> and
  \<^verbatim>\<open>str(Path(p).name)\<close>, \<open>pid\<close> is \<^verbatim>\<open>os.getpid()\<close>. The messages of \<^verbatim>\<open>logger.info\<close> are not kept.
\<close>

definition forward_model_data_to_json ::
  "'obj world \<Rightarrow> (string \<Rightarrow> string) \<Rightarrow> (string \<Rightarrow> string) \<Rightarrow> nat \<Rightarrow> state \<Rightarrow> 'obj ert_config \<Rightarrow>
   string \<Rightarrow> int \<Rightarrow> int \<Rightarrow> py_exn + json \<times> msg list" where
  "forward_model_data_to_json W path_parent path_name pid s self run_id iens itr =
     (case job_entries W (substitution_list self) iens itr 0
             (map (job_value s) (forward_model_list self)) of
        Inl e \<Rightarrow> Inl e
      | Inr (job_list, log) \<Rightarrow>
          Inr (JDict
                [(''global_environment'', JDict (map (\<lambda>(key, val). (key, JStr val)) (env_vars self))),
                 (''config_path'', JStr (path_parent (user_config_file self))),
                 (''config_file'', JStr (path_name (user_config_file self))),
                 (''jobList'', JList job_list),
                 (''run_id'', JStr run_id),
                 (''ert_pid'', JStr (str_nat pid))],
               log))"

section \<open>Validation of the ensemble configuration\<close>

text \<open>
  \<^verbatim>\<open>find_first_gen_kw_arg\<close> of \<^verbatim>\<open>ErtConfig._validate_ensemble_config\<close>. The arguments of an
  occurrence are its identifier and the rest. Two occurrences of one identifier raise a
  \<^verbatim>\<open>ConfigValidationError\<close> that the function does not collect.
\<close>

definition find_first_gen_kw_arg ::
  "config_dict \<Rightarrow> string \<Rightarrow> string \<Rightarrow> py_exn + string option" where
  "find_first_gen_kw_arg config_dict kw_id matching =
     (let all_arglists = filter (\<lambda>(k, rest). k = kw_id) (get_list (GEN_KW config_dict))
      in if length all_arglists > 1 then
           Inl (ConfigValidationError
                  (Direct [Lit ''Found two GEN_KW '', Str kw_id, Lit '' declarations''] None))
         else case all_arglists of
                [] \<Rightarrow> Inl IndexError
              | (k, rest) # _ \<Rightarrow>
                  Inr (case filter (\<lambda>arg. contains (lower matching) (lower arg)) (k # rest) of
                         [] \<Rightarrow> None
                       | arg # _ \<Rightarrow> Some arg))"

fun gen_kw_loop :: "string \<Rightarrow> config_dict \<Rightarrow> string list \<Rightarrow> entry list \<Rightarrow> py_exn + entry list" where
  "gen_kw_loop config_file config_dict [] errors = Inr errors"
| "gen_kw_loop config_file config_dict (kw_id # rest) errors =
     (case find_first_gen_kw_arg config_dict kw_id ''FORWARD_INIT:TRUE'' of
        Inl e \<Rightarrow> Inl e
      | Inr use_fwd_init_token \<Rightarrow>
          (let errors1 =
                 (if use_fwd_init_token \<noteq> None then
                    errors @ [Exc (Direct [Lit ''Loading GEN_KW from files created by the forward model is not supported.'']
                                     (Some config_file))]
                  else errors)
           in case find_first_gen_kw_arg config_dict kw_id ''INIT_FILES:'' of
                Inl e \<Rightarrow> Inl e
              | Inr init_files_token \<Rightarrow>
                  (case init_files_token of
                     Some token \<Rightarrow>
                       if CHR ''%'' \<notin> set token then
                         gen_kw_loop config_file config_dict rest
                           (errors1 @ [Exc (Direct [Lit ''Loading GEN_KW from files requires %d in file format'']
                                              (Some config_file))])
                       else gen_kw_loop config_file config_dict rest errors1
                   | None \<Rightarrow> gen_kw_loop config_file config_dict rest errors1)))"

text \<open>
  \<^verbatim>\<open>gen_kw_id_list\<close> is the list of a Python set, whose order is not fixed; the model
  takes the identifiers in the order of their first occurrence.
\<close>

definition validate_ensemble_config :: "string \<Rightarrow> config_dict \<Rightarrow> py_exn + entry list" where
  "validate_ensemble_config config_file config_dict =
     gen_kw_loop config_file config_dict
       (rev (remdups (rev (map fst (get_list (GEN_KW config_dict)))))) []"

section \<open>Templates\<close>

fun index_of :: "'a \<Rightarrow> 'a list \<Rightarrow> nat option" where
  "index_of x [] = None"
| "index_of x (y # ys) = (if x = y then Some 0 else map_option Suc (index_of x ys))"

text \<open>
  \<^verbatim>\<open>ErtConfig.check_non_utf_chars\<close>: a \<^verbatim>\<open>UnicodeDecodeError\<close>, given by its text, becomes a
  \<^verbatim>\<open>ConfigValidationError\<close> that names the word after \<^verbatim>\<open>byte\<close>.
\<close>

definition check_non_utf_chars :: "'obj world \<Rightarrow> string \<Rightarrow> py_exn + unit" where
  "check_non_utf_chars W file_path =
     (case read_utf8 W file_path of
        Inl (UnicodeDecodeError e) \<Rightarrow>
          (let error_words = split_on (CHR '' '') e
           in case index_of ''byte'' error_words of
                None \<Rightarrow> Inl (ValueError ''byte is not in list'')
              | Some i \<Rightarrow>
                  if Suc i < length error_words then
                    Inl (ConfigValidationError
                           (Direct [Lit ''Unsupported non UTF-8 character '',
                                    ReprChar (error_words ! Suc i),
                                    Lit '' found in file: '', Repr file_path]
                              (Some file_path)))
                  else Inl IndexError)
      | r \<Rightarrow> r)"

text \<open>\<^verbatim>\<open>ErtConfig._read_templates\<close>.\<close>

definition read_templates :: "'obj world \<Rightarrow> config_dict \<Rightarrow> py_exn + string list list" where
  "read_templates W config_dict =
     (case (DATA_FILE config_dict, ECLBASE config_dict) of
        (Some source_file, Some eclbase) \<Rightarrow>
          (case check_non_utf_chars W source_file of
             Inl e \<Rightarrow> Inl e
           | Inr _ \<Rightarrow>
               Inr ([source_file, replace_percent_d ''<IENS>'' eclbase @ ''.DATA'']
                    # get_list (RUN_TEMPLATE config_dict)))
      | _ \<Rightarrow> Inr (get_list (RUN_TEMPLATE config_dict)))"

section \<open>Construction from the dictionary\<close>

text \<open>The first lines of \<^verbatim>\<open>ErtConfig.from_dict\<close>: the substitution list and the file names.\<close>

definition runpath_file_of :: "config_dict \<Rightarrow> string" where
  "runpath_file_of config_dict =
     (case RUNPATH_FILE config_dict of Some p \<Rightarrow> p | None \<Rightarrow> DEFAULT_RUNPATH_FILE)"

definition initial_substitutions :: "'obj world \<Rightarrow> config_dict \<Rightarrow> subst" where
  "initial_substitutions W config_dict =
     AList.update ''<RUNPATH_FILE>'' (runpath_file_of config_dict)
       (SubstitutionList_from_dict W config_dict)"

definition get_default :: "subst \<Rightarrow> string \<Rightarrow> string \<Rightarrow> string" where
  "get_default t key dflt = (case map_of t key of Some v \<Rightarrow> v | None \<Rightarrow> dflt)"

definition config_file_of :: "'obj world \<Rightarrow> config_dict \<Rightarrow> string" where
  "config_file_of W config_dict =
     get_default (initial_substitutions W config_dict) ''<CONFIG_FILE>'' ''no_config''"

definition config_file_path_of :: "'obj world \<Rightarrow> config_dict \<Rightarrow> string" where
  "config_file_path_of W config_dict =
     os_path_join (get_default (initial_substitutions W config_dict) ''<CONFIG_PATH>'' [])
       (config_file_of W config_dict)"

text \<open>The three keys that the model configuration adds to the substitution list.\<close>

definition model_substitutions :: "'obj world \<Rightarrow> 'obj \<Rightarrow> subst \<Rightarrow> subst" where
  "model_substitutions W model t =
     AList.update ''<ECLBASE>'' (eclbase_format_string W model)
       (AList.update ''<ECL_BASE>'' (eclbase_format_string W model)
          (AList.update ''<RUNPATH>'' (runpath_format_string W model) t))"

text \<open>
  \<^verbatim>\<open>try: ... except ConfigValidationError as e: errors.append(e)\<close>: the error is handed over
  as a value, any other exception is raised.
\<close>

definition catch_cve :: "py_exn + 'a \<Rightarrow> py_exn + (cve + 'a)" where
  "catch_cve r =
     (case r of
        Inr v \<Rightarrow> Inr (Inr v)
      | Inl (ConfigValidationError e) \<Rightarrow> Inr (Inl e)
      | Inl other \<Rightarrow> Inl other)"

text \<open>
  The end of \<^verbatim>\<open>from_dict\<close>: the call of the constructor, whose arguments are evaluated in
  the order they are written, and \<^verbatim>\<open>__post_init__\<close>, which sets \<open>config_path\<close>.
\<close>

definition construct ::
  "'obj world \<Rightarrow> config_dict \<Rightarrow> subst \<Rightarrow> 'obj \<Rightarrow> 'obj option \<Rightarrow>
   (string \<times> 'obj) list \<Rightarrow> (string \<times> 'obj) list \<Rightarrow> ('obj \<times> 'obj list) list \<Rightarrow>
   (string \<times> nat) list \<Rightarrow> state \<Rightarrow> (py_exn + 'obj ert_config) \<times> state" where
  "construct W config_dict substitutions ensemble model wjobs wflows hooked jobs s =
     (let vars = fold (\<lambda>(key, val) t. AList.update key val t) (get_list (SETENV config_dict)) [];
          infos = (case cfg_warning_infos config_dict of Some w \<Rightarrow> w | None \<Rightarrow> []);
          config_file = config_file_of W config_dict;
          config_file_path = config_file_path_of W config_dict
      in case AnalysisConfig_from_dict W config_dict of
           Inl e \<Rightarrow> (Inl e, s)
         | Inr analysis \<Rightarrow>
       (case QueueConfig_from_dict W config_dict of
           Inl e \<Rightarrow> (Inl e, s)
         | Inr queue \<Rightarrow>
       (case read_templates W config_dict of
           Inl e \<Rightarrow> (Inl e, s)
         | Inr templates \<Rightarrow>
       (case read_forward_model W jobs substitutions config_dict config_file s of
           (Inl e, s1) \<Rightarrow> (Inl e, s1)
         | (Inr forward_model, s1) \<Rightarrow>
             (Inr \<lparr>substitution_list = substitutions,
                   ensemble_config = ensemble,
                   ens_path = (case ENSPATH config_dict of Some p \<Rightarrow> p | None \<Rightarrow> DEFAULT_ENSPATH),
                   env_vars = vars,
                   random_seed = RANDOM_SEED config_dict,
                   analysis_config = analysis,
                   queue_config = queue,
                   workflow_jobs = wjobs,
                   workflows = wflows,
                   hooked_workflows = hooked,
                   runpath_file = runpath_file_of config_dict,
                   ert_templates = templates,
                   installed_jobs = jobs,
                   forward_model_list = forward_model,
                   model_config = model,
                   user_config_file = config_file_path,
                   config_path =
                     (if config_file_path \<noteq> []
                      then os_path_dirname (abspath W config_file_path) else getcwd W),
                   warning_infos = infos\<rparr>,
              s1)))))"

text \<open>
  \<^verbatim>\<open>ErtConfig.from_dict\<close>. The errors of the dictionary and of \<^verbatim>\<open>MAX_RUNNING\<close> are raised
  together before anything is loaded. The errors of the ensemble configuration, of the
  model configuration, of the workflows and of the installed jobs are raised together
  after the four have run; the three calls in a \<^verbatim>\<open>try\<close> leave their default behind when they
  fail. \<^verbatim>\<open>EnsembleConfig.from_dict\<close> and \<^verbatim>\<open>_validate_ensemble_config\<close> are not in a \<^verbatim>\<open>try\<close>.
\<close>

definition from_dict ::
  "'obj world \<Rightarrow> config_dict \<Rightarrow> state \<Rightarrow> (py_exn + 'obj ert_config) \<times> state" where
  "from_dict W config_dict s =
     (let substitutions = initial_substitutions W config_dict;
          config_file = config_file_of W config_dict
      in case validate_dict config_dict config_file of
           Inl e \<Rightarrow> (Inl e, s)
         | Inr errors1 \<Rightarrow>
       (case validate_queue_option_max_running W config_file config_dict of
           Inl e \<Rightarrow> (Inl e, s)
         | Inr errors2 \<Rightarrow>
             if errors1 @ errors2 \<noteq> []
             then (Inl (ConfigValidationError (FromCollected (errors1 @ errors2))), s)
             else
       (case EnsembleConfig_from_dict W config_dict of
           Inl e \<Rightarrow> (Inl e, s)
         | Inr ensemble \<Rightarrow>
       (case validate_ensemble_config config_file config_dict of
           Inl e \<Rightarrow> (Inl e, s)
         | Inr errors3 \<Rightarrow>
       (case catch_cve (ModelConfig_from_dict W (refcase W ensemble) config_dict) of
           Inl e \<Rightarrow> (Inl e, s)
         | Inr model_result \<Rightarrow>
             (let (model, substitutions1, errors4) =
                    (case model_result of
                       Inr m \<Rightarrow> (Some m, model_substitutions W m substitutions, errors3)
                     | Inl e \<Rightarrow> (None, substitutions, errors3 @ [Exc e]))
              in case workflows_from_dict W config_dict substitutions1 s of (r1, s1) \<Rightarrow>
       (case catch_cve r1 of
           Inl e \<Rightarrow> (Inl e, s1)
         | Inr workflow_result \<Rightarrow>
             (let (wjobs, wflows, hooked, errors5) =
                    (case workflow_result of
                       Inr (wj, wfl, hk) \<Rightarrow> (wj, wfl, hk, errors4)
                     | Inl e \<Rightarrow> ([], [], [], errors4 @ [Exc e]))
              in case installed_jobs_from_dict W config_dict s1 of (r2, s2) \<Rightarrow>
       (case catch_cve r2 of
           Inl e \<Rightarrow> (Inl e, s2)
         | Inr jobs_result \<Rightarrow>
             (let (jobs, errors) =
                    (case jobs_result of
                       Inr js \<Rightarrow> (js, errors5)
                     | Inl e \<Rightarrow> ([], errors5 @ [Exc e]))
              in if errors \<noteq> []
                 then (Inl (ConfigValidationError (FromCollected errors)), s2)
                 else construct W config_dict substitutions1 ensemble model wjobs wflows
                        hooked jobs s2))))))))))"

section \<open>Equality of configurations\<close>

text \<open>
  The values of the attributes of an \<^verbatim>\<open>ErtConfig\<close>. A job is read through its address, so
  that two configurations are compared by what their jobs hold. \<open>VMissing\<close> stands for a
  name that is not an attribute.
\<close>

datatype 'obj py_value =
    VSubst subst
  | VObj 'obj
  | VOptObj "'obj option"
  | VStr string
  | VOptStr "string option"
  | VDict "(string \<times> string) list"
  | VObjDict "(string \<times> 'obj) list"
  | VHooks "('obj \<times> 'obj list) list"
  | VTemplates "string list list"
  | VRegistry "(string \<times> subst ext_job) list"
  | VJobs "subst ext_job list"
  | VWarnings "msg list"
  | VMissing

text \<open>
  \<^verbatim>\<open>vars(self)\<close>: the fields that \<^verbatim>\<open>__init__\<close> sets, in the order of their declaration, then
  \<open>config_path\<close>, which \<^verbatim>\<open>__post_init__\<close> sets.
\<close>

definition vars_of :: "string list" where
  "vars_of =
     [''substitution_list'', ''ensemble_config'', ''ens_path'', ''env_vars'', ''random_seed'',
      ''analysis_config'', ''queue_config'', ''workflow_jobs'', ''workflows'',
      ''hooked_workflows'', ''runpath_file'', ''ert_templates'', ''installed_jobs'',
      ''forward_model_list'', ''model_config'', ''user_config_file'', ''warning_infos'',
      ''config_path'']"

definition getattr :: "state \<Rightarrow> 'obj ert_config \<Rightarrow> string \<Rightarrow> 'obj py_value" where
  "getattr s self attr =
     (if attr = ''substitution_list'' then VSubst (substitution_list self)
      else if attr = ''ensemble_config'' then VObj (ensemble_config self)
      else if attr = ''ens_path'' then VStr (ens_path self)
      else if attr = ''env_vars'' then VDict (env_vars self)
      else if attr = ''random_seed'' then VOptStr (random_seed self)
      else if attr = ''analysis_config'' then VObj (analysis_config self)
      else if attr = ''queue_config'' then VObj (queue_config self)
      else if attr = ''workflow_jobs'' then VObjDict (workflow_jobs self)
      else if attr = ''workflows'' then VObjDict (workflows self)
      else if attr = ''hooked_workflows'' then VHooks (hooked_workflows self)
      else if attr = ''runpath_file'' then VStr (runpath_file self)
      else if attr = ''ert_templates'' then VTemplates (ert_templates self)
      else if attr = ''installed_jobs''
        then VRegistry (map (\<lambda>(job_name, a). (job_name, job_value s a)) (installed_jobs self))
      else if attr = ''forward_model_list''
        then VJobs (map (job_value s) (forward_model_list self))
      else if attr = ''model_config'' then VOptObj (model_config self)
      else if attr = ''user_config_file'' then VStr (user_config_file self)
      else if attr = ''warning_infos'' then VWarnings (warning_infos self)
      else if attr = ''config_path'' then VStr (config_path self)
      else VMissing)"

text \<open>The right operand of \<^verbatim>\<open>==\<close>: an \<^verbatim>\<open>ErtConfig\<close> or an object of another class.\<close>

datatype ('obj, 'other) py_object = ErtConfigObject "'obj ert_config" | OtherObject 'other

definition ignore_attrs :: "string list" where
  "ignore_attrs = [''warning_infos'']"

text \<open>
  \<^verbatim>\<open>ErtConfig.__eq__\<close>. \<open>py_eq\<close> is \<^verbatim>\<open>==\<close> on the values of the attributes, which each class
  defines for itself.
\<close>

definition ert_config_eq ::
  "('obj py_value \<Rightarrow> 'obj py_value \<Rightarrow> bool) \<Rightarrow> state \<Rightarrow> 'obj ert_config \<Rightarrow>
   ('obj, 'other) py_object \<Rightarrow> bool" where
  "ert_config_eq py_eq s self other =
     (case other of
        OtherObject _ \<Rightarrow> False
      | ErtConfigObject o' \<Rightarrow>
          list_all (\<lambda>attr. attr \<in> set ignore_attrs \<or> py_eq (getattr s self attr) (getattr s o' attr))
            vars_of)"

section \<open>A world for the examples\<close>

text \<open>
  A small instance of the parameters, on which the examples below are evaluated. Opaque
  objects are strings. No macro is defined, so the substitutions return their text. The
  directory \<^verbatim>\<open>/jobs\<close> holds two job files, \<^verbatim>\<open>/jobs/A\<close> and \<^verbatim>\<open>/jobs/B\<close>, and a
  subdirectory \<^verbatim>\<open>/jobs/old\<close>; the workflow job file \<^verbatim>\<open>/wf/bad\<close> is malformed, and
  \<^verbatim>\<open>Workflow.from_file\<close> rejects the workflow file \<^verbatim>\<open>/wf/broken\<close>; private arguments given
  as one string are of the form \<^verbatim>\<open>key=value\<close>.

  The instance of \<^verbatim>\<open>int\<close> reads an optional minus sign followed by ASCII digits, in base
  10, as \<^verbatim>\<open>int\<close> does, and rejects every other string. It stands for \<^verbatim>\<open>int\<close> on the
  strings of the examples only (\<^verbatim>\<open>int\<close> also accepts a plus sign, white space around the
  number, underscores between digits and the decimal digits of other scripts); the
  statements below are about every instance.
\<close>

definition digit_of :: "char \<Rightarrow> nat option" where
  "digit_of c =
     map_of [(CHR ''0'', 0), (CHR ''1'', 1), (CHR ''2'', 2), (CHR ''3'', 3), (CHR ''4'', 4),
             (CHR ''5'', 5), (CHR ''6'', 6), (CHR ''7'', 7), (CHR ''8'', 8), (CHR ''9'', 9)] c"

fun decimal :: "nat \<Rightarrow> string \<Rightarrow> nat option" where
  "decimal acc [] = Some acc"
| "decimal acc (c # cs) =
     (case digit_of c of
        Some d \<Rightarrow> decimal (10 * acc + d) cs
      | None \<Rightarrow> None)"

definition example_int :: "string \<Rightarrow> int option" where
  "example_int str =
     (case str of
        [] \<Rightarrow> None
      | c # cs \<Rightarrow>
          if c = CHR ''-''
          then (if cs = [] then None else map_option (\<lambda>n. - int n) (decimal 0 cs))
          else map_option int (decimal 0 (c # cs)))"

definition example_job :: "string \<Rightarrow> string \<Rightarrow> subst ext_job" where
  "example_job job_name exe =
     \<lparr>name = job_name, executable = exe, stdin_file = None, stdout_file = Some ''out'',
      stderr_file = None, start_file = None, target_file = None, error_file = None,
      max_running = None, max_running_minutes = None, min_arg = None, max_arg = None,
      arglist = [''<MSG>''], arg_types = [], environment = [], exec_env = [],
      default_mapping = [], private_args = []\<rparr>"

definition example_world :: "string world" where
  "example_world =
     \<lparr>py_int = example_int,
      abspath = (\<lambda>p. if os_path_isabs p then p else ''/cwd/'' @ p),
      getcwd = ''/cwd'',
      isdir = (\<lambda>p. p = ''/jobs'' \<or> p = ''/jobs/old''),
      isfile = (\<lambda>p. p = ''/jobs/A'' \<or> p = ''/jobs/B''),
      listdir = (\<lambda>p. if p = ''/jobs'' then [''A'', ''B'', ''old''] else []),
      read_utf8 = (\<lambda>p. Inr ()),
      substitute = (\<lambda>t str. str),
      substitute_bounded = (\<lambda>t str hint n. str),
      substitute_real_iter = (\<lambda>t str iens itr. str),
      add_from_string =
        (\<lambda>t str. case split_on (CHR ''='') str of
                    [key, val] \<Rightarrow> Inr (AList.update key val t)
                  | _ \<Rightarrow> Inl ''Missing = in argument''),
      SubstitutionList_from_dict =
        (\<lambda>d. [(''<CONFIG_PATH>'', ''/cwd''), (''<CONFIG_FILE>'', ''poly.ert'')]),
      ExtJob_from_config_file =
        (\<lambda>given path.
           if path = ''/jobs/A''
             then Inr (example_job (case given of Some n \<Rightarrow> n | None \<Rightarrow> ''A'') ''/bin/a'')
           else if path = ''/jobs/B''
             then Inr (example_job (case given of Some n \<Rightarrow> n | None \<Rightarrow> ''B'') ''/bin/b'')
           else Inl (ConfigValidationError
                       (Direct [Lit ''Could not open job file '', Repr path] (Some path)))),
      WorkflowJob_from_file =
        (\<lambda>path given.
           if path = ''/wf/bad''
             then Inl (ConfigValidationError (Direct [Lit ''Malformed workflow job''] (Some path)))
           else Inr (case given of Some n \<Rightarrow> n | None \<Rightarrow> os_path_basename path)),
      workflow_job_name = (\<lambda>j. j),
      Workflow_from_file =
        (\<lambda>path t wjobs.
           if path = ''/wf/broken''
             then Inl (ConfigValidationError
                         (Direct [Lit ''Job with name: NO_SUCH_JOB is not recognized'']
                            (Some path)))
           else Inr path),
      HookRuntime =
        (\<lambda>m. if m \<in> set [''PRE_SIMULATION'', ''POST_SIMULATION'', ''PRE_UPDATE'',
                           ''POST_UPDATE'', ''PRE_FIRST_UPDATE'']
             then Some m else None),
      EnsembleConfig_from_dict = (\<lambda>d. Inr ''ensemble''),
      refcase = (\<lambda>e. ''refcase''),
      ModelConfig_from_dict = (\<lambda>r d. Inr ''model''),
      runpath_format_string = (\<lambda>m. ''simulations/realization-<IENS>/iter-<ITER>''),
      eclbase_format_string = (\<lambda>m. ''ECLBASE<IENS>''),
      AnalysisConfig_from_dict = (\<lambda>d. Inr ''analysis''),
      QueueConfig_from_dict = (\<lambda>d. Inr ''queue''),
      str_of_error = (\<lambda>e. ''malformed''),
      get_cli_message = (\<lambda>e. ''malformed'')\<rparr>"

text \<open>The store before anything is loaded.\<close>

definition empty_state :: state where
  "empty_state = \<lparr>ext_jobs = [], subst_lists = [], warned = []\<rparr>"

text \<open>A configuration and a store with one installed job, for the examples.\<close>

definition example_config :: "string ert_config" where
  "example_config =
     \<lparr>substitution_list = [(''<CONFIG_PATH>'', ''/cwd'')],
      ensemble_config = ''ensemble'', ens_path = ''storage'', env_vars = [(''A'', ''1'')],
      random_seed = None, analysis_config = ''analysis'', queue_config = ''queue'',
      workflow_jobs = [], workflows = [], hooked_workflows = [],
      runpath_file = ''.ert_runpath_list'', ert_templates = [],
      installed_jobs = [(''echo'', 0)], forward_model_list = [],
      model_config = Some ''model'', user_config_file = ''/cwd/poly.ert'',
      config_path = ''/cwd'', warning_infos = []\<rparr>"

definition example_state :: state where
  "example_state = snd (new_ext_job (example_job ''echo'' ''/bin/a'') empty_state)"

section \<open>Predicates of the statements\<close>

text \<open>
  For the statement about hooks: the \<^verbatim>\<open>HOOK_WORKFLOW\<close> occurrences that the loop rejects,
  given the workflows that were loaded, and the error it appends for one of them.
\<close>

definition hook_failing :: "'obj world \<Rightarrow> (string \<times> 'obj) list \<Rightarrow> string \<times> string \<Rightarrow> bool" where
  "hook_failing W wflows h = (case h of (hook_name, mode_name) \<Rightarrow>
     HookRuntime W mode_name = None \<or> map_of wflows hook_name = None)"

definition hook_error :: "'obj world \<Rightarrow> string \<times> string \<Rightarrow> entry" where
  "hook_error W h = (case h of (hook_name, mode_name) \<Rightarrow>
     if HookRuntime W mode_name = None
     then Exc (Direct [Lit ''Run mode '', Repr mode_name, Lit '' not supported for Hook Workflow'']
                 None)
     else Info \<lparr>message = [Lit ''Cannot setup hook for non-existing job name '', Repr hook_name],
                filename = None, origin = Context hook_name\<rparr>)"



text \<open>
  For the statement about copies. In a well-formed store every job object refers to a
  table that exists. A store \<open>s'\<close> extends \<open>s\<close> when every object of \<open>s\<close> is in \<open>s'\<close> at
  the same address with the same content.
\<close>

definition heap_ok :: "state \<Rightarrow> bool" where
  "heap_ok s = list_all (\<lambda>job. private_args job < length (subst_lists s)) (ext_jobs s)"

definition extends :: "state \<Rightarrow> state \<Rightarrow> bool" where
  "extends s s' =
     (take (length (ext_jobs s)) (ext_jobs s') = ext_jobs s \<and>
      take (length (subst_lists s)) (subst_lists s') = subst_lists s)"

text \<open>
  What the invocation \<open>(unsubstituted_job_name, given)\<close> of a registered job is resolved to,
  as a value: the job of the registry, with the private arguments of the invocation when
  it gives any. \<open>args_ok\<close> holds when \<^verbatim>\<open>add_from_string\<close> accepts the argument string.
\<close>

definition table_of :: "'obj world \<Rightarrow> fm_args \<Rightarrow> subst" where
  "table_of W args =
     (case args of
        ArgString str \<Rightarrow> (case add_from_string W [] str of Inr t \<Rightarrow> t | Inl _ \<Rightarrow> [])
      | ArgPairs ps \<Rightarrow> fold (\<lambda>(key, val) t. AList.update key val t) ps [])"

definition args_ok :: "'obj world \<Rightarrow> fm_args option \<Rightarrow> bool" where
  "args_ok W given =
     (case given of
        Some (ArgString str) \<Rightarrow>
          (case add_from_string W [] str of Inr _ \<Rightarrow> True | Inl _ \<Rightarrow> str = [])
      | _ \<Rightarrow> True)"

definition resolved :: "'obj world \<Rightarrow> subst ext_job \<Rightarrow> string \<times> fm_args option \<Rightarrow> subst ext_job" where
  "resolved W job req =
     (case snd req of
        Some args \<Rightarrow> if truthy args then with_private_args job (table_of W args) else job
      | None \<Rightarrow> job)"

definition resolved_simulation_job :: "subst ext_job \<Rightarrow> string \<times> string list \<Rightarrow> subst ext_job" where
  "resolved_simulation_job job req = job\<lparr>arglist := snd req\<rparr>"

text \<open>The table of the job object at address \<open>j\<close>.\<close>

definition table_at :: "state \<Rightarrow> nat \<Rightarrow> nat" where
  "table_at s j = private_args (ext_jobs s ! j)"

text \<open>
  For the statement about duplicate names: the warnings about a duplicate of the job
  name \<open>n\<close>.
\<close>

definition names_job :: "string \<Rightarrow> msg \<Rightarrow> bool" where
  "names_job n m = (take 2 m = [Lit ''Duplicate forward model job with name '', Repr n])"

text \<open>
  The declarations of jobs, in the order in which \<^verbatim>\<open>_installed_jobs_from_dict\<close> goes through
  them: the \<^verbatim>\<open>INSTALL_JOB\<close> occurrences, then the \<^verbatim>\<open>INSTALL_JOB_DIRECTORY\<close> occurrences, each
  with its files. \<open>LoadJob given path\<close> is a call \<^verbatim>\<open>ExtJob.from_config_file\<close> of the file
  \<open>path\<close>, with the name \<open>given\<close> for an \<^verbatim>\<open>INSTALL_JOB\<close> occurrence and without a name for a
  file of a directory; \<open>NoDirectory\<close> is a directory that does not exist and \<open>NoFiles\<close> one
  that holds no file. An entry of a directory that is not a file is passed over.
\<close>

datatype install_step = LoadJob "string option" string | NoFiles string | NoDirectory string

definition directory_steps :: "'obj world \<Rightarrow> string \<Rightarrow> install_step list" where
  "directory_steps W job_path =
     (if \<not> isdir W job_path then [NoDirectory job_path]
      else
        let present = filter (\<lambda>f. isfile W (abspath W (os_path_join job_path f)))
                        (listdir W job_path)
        in if present = [] then [NoFiles job_path]
           else map (\<lambda>f. LoadJob None (abspath W (os_path_join job_path f))) present)"

definition install_steps :: "'obj world \<Rightarrow> config_dict \<Rightarrow> install_step list" where
  "install_steps W config_dict =
     map (\<lambda>(job_name, path). LoadJob (Some job_name) (abspath W path))
       (get_list (INSTALL_JOB config_dict))
     @ concat (map (directory_steps W) (get_list (INSTALL_JOB_DIRECTORY config_dict)))"

text \<open>
  What the two loops of \<^verbatim>\<open>_installed_jobs_from_dict\<close> do, as one loop over the declarations:
  the call of the loader and the registration for a job file, the warning for a directory
  without files, the error for a missing directory.
\<close>

fun run_steps ::
  "'obj world \<Rightarrow> install_step list \<Rightarrow> entry list \<Rightarrow> (string \<times> nat) list \<Rightarrow> state \<Rightarrow>
   (py_exn + entry list \<times> (string \<times> nat) list) \<times> state" where
  "run_steps W [] errors jobs s = (Inr (errors, jobs), s)"
| "run_steps W (LoadJob given path # rest) errors jobs s =
     (case ExtJob_from_config_file W given path of
        Inl (ConfigValidationError e) \<Rightarrow> run_steps W rest (errors @ [Exc e]) jobs s
      | Inl other \<Rightarrow> (Inl other, s)
      | Inr new_job \<Rightarrow>
          (let (jobs1, s1) =
                 register_job (case given of Some n \<Rightarrow> n | None \<Rightarrow> name new_job) path new_job jobs s
           in run_steps W rest errors jobs1 s1))"
| "run_steps W (NoFiles job_path # rest) errors jobs s =
     run_steps W rest errors jobs (warn [Lit ''No files found in job directory '', Str job_path] s)"
| "run_steps W (NoDirectory job_path # rest) errors jobs s =
     run_steps W rest
       (errors @ [Exc (Direct [Lit ''Unable to locate job directory '', Repr job_path] None)])
       jobs s"

text \<open>
  The name and the job that a declaration installs when its file loads: the name is the
  given one, or the name of the job that was read. \<open>installs_other W n\<close> holds for a
  declaration that installs a job of another name than \<open>n\<close>, and for a directory without
  files.
\<close>

definition installs :: "'obj world \<Rightarrow> install_step \<Rightarrow> (string \<times> subst ext_job) option" where
  "installs W step =
     (case step of
        LoadJob given path \<Rightarrow>
          (case ExtJob_from_config_file W given path of
             Inr job \<Rightarrow> Some (case given of Some n \<Rightarrow> n | None \<Rightarrow> name job, job)
           | Inl _ \<Rightarrow> None)
      | _ \<Rightarrow> None)"

definition installs_other :: "'obj world \<Rightarrow> string \<Rightarrow> install_step \<Rightarrow> bool" where
  "installs_other W n step =
     (case step of
        LoadJob given path \<Rightarrow> (case installs W step of Some (m, job) \<Rightarrow> m \<noteq> n | None \<Rightarrow> False)
      | NoFiles job_path \<Rightarrow> True
      | NoDirectory job_path \<Rightarrow> False)"

section \<open>Properties\<close>

subsection \<open>Default injection\<close>

lemma os_path_join_plain:
  "dir \<noteq> [] \<Longrightarrow> last dir \<noteq> sep \<Longrightarrow> b \<noteq> [] \<Longrightarrow> hd b \<noteq> sep \<Longrightarrow>
   os_path_join dir b = dir @ [sep] @ b"
  by (cases b; cases dir rule: rev_cases)
     (auto simp: os_path_join_def startswith_def endswith_def)

text \<open>
  C6. When the dictionary has no \<^verbatim>\<open>ENSPATH\<close>, \<^verbatim>\<open>apply_config_content_defaults\<close> sets it to
  \<^verbatim>\<open>os.path.join(config_dir, "storage")\<close>, which is \<^verbatim>\<open>config_dir + "/storage"\<close> for a directory
  name that is not empty and does not end with a separator; a missing \<^verbatim>\<open>RUNPATH_FILE\<close>
  becomes \<^verbatim>\<open>os.path.join(config_dir, ".ert_runpath_list")\<close>; a relative \<^verbatim>\<open>RUNPATH_FILE\<close> is
  joined to \<^verbatim>\<open>config_dir\<close> and normalised; an absolute \<^verbatim>\<open>RUNPATH_FILE\<close> and a declared
  \<^verbatim>\<open>ENSPATH\<close> stay as they are, and so does every other keyword.
\<close>

theorem defaults_injected:
  fixes content_dict :: config_dict and config_dir :: string
  defines "d' \<equiv> apply_config_content_defaults content_dict config_dir"
  shows "(ENSPATH content_dict = None \<longrightarrow>
            ENSPATH d' = Some (os_path_join config_dir ''storage''))
       \<and> (ENSPATH content_dict = None \<and> config_dir \<noteq> [] \<and> last config_dir \<noteq> CHR ''/'' \<longrightarrow>
            ENSPATH d' = Some (config_dir @ ''/storage''))
       \<and> (RUNPATH_FILE content_dict = None \<longrightarrow>
            RUNPATH_FILE d' = Some (os_path_join config_dir ''.ert_runpath_list''))
       \<and> (\<forall>p. RUNPATH_FILE content_dict = Some p \<and> \<not> os_path_isabs p \<longrightarrow>
            RUNPATH_FILE d' = Some (os_path_normpath (os_path_join config_dir p)))
       \<and> (\<forall>p. RUNPATH_FILE content_dict = Some p \<and> os_path_isabs p \<longrightarrow>
            RUNPATH_FILE d' = Some p)
       \<and> (\<forall>p. ENSPATH content_dict = Some p \<longrightarrow> ENSPATH d' = Some p)
       \<and> d'\<lparr>ENSPATH := ENSPATH content_dict, RUNPATH_FILE := RUNPATH_FILE content_dict\<rparr>
           = content_dict"
proof -
  have 1: "ENSPATH content_dict = None \<longrightarrow>
            ENSPATH d' = Some (os_path_join config_dir ''storage'')"
    by (simp add: d'_def apply_config_content_defaults_def Let_def DEFAULT_ENSPATH_def
          split: option.splits)
  have 2: "ENSPATH content_dict = None \<and> config_dir \<noteq> [] \<and> last config_dir \<noteq> CHR ''/'' \<longrightarrow>
            ENSPATH d' = Some (config_dir @ ''/storage'')"
    using 1 os_path_join_plain [of config_dir "''storage''"] by (simp add: sep_def)
  have 3: "RUNPATH_FILE content_dict = None \<longrightarrow>
            RUNPATH_FILE d' = Some (os_path_join config_dir ''.ert_runpath_list'')"
    by (simp add: d'_def apply_config_content_defaults_def Let_def DEFAULT_RUNPATH_FILE_def)
  have 4: "\<forall>p. RUNPATH_FILE content_dict = Some p \<and> \<not> os_path_isabs p \<longrightarrow>
            RUNPATH_FILE d' = Some (os_path_normpath (os_path_join config_dir p))"
    by (simp add: d'_def apply_config_content_defaults_def Let_def)
  have 5: "\<forall>p. RUNPATH_FILE content_dict = Some p \<and> os_path_isabs p \<longrightarrow>
            RUNPATH_FILE d' = Some p"
    by (simp add: d'_def apply_config_content_defaults_def Let_def)
  have 6: "\<forall>p. ENSPATH content_dict = Some p \<longrightarrow> ENSPATH d' = Some p"
    by (auto simp add: d'_def apply_config_content_defaults_def Let_def split: option.splits)
  have 7: "d'\<lparr>ENSPATH := ENSPATH content_dict, RUNPATH_FILE := RUNPATH_FILE content_dict\<rparr>
           = content_dict"
    by (simp add: d'_def apply_config_content_defaults_def Let_def split: option.splits)
  from 1 2 3 4 5 6 7 show ?thesis by blast
qed

theorem defaults_injected_witness:
  "ENSPATH (apply_config_content_defaults empty_config ''/home/user/case'')
     = Some ''/home/user/case/storage''
   \<and> RUNPATH_FILE (apply_config_content_defaults empty_config ''/home/user/case'')
     = Some ''/home/user/case/.ert_runpath_list''
   \<and> RUNPATH_FILE (apply_config_content_defaults
        (empty_config\<lparr>ENSPATH := Some ''/data/ens'', RUNPATH_FILE := Some ''../out/./list''\<rparr>)
        ''/home/user/case'')
     = Some ''/home/user/out/list''
   \<and> ENSPATH (apply_config_content_defaults
        (empty_config\<lparr>ENSPATH := Some ''/data/ens'', RUNPATH_FILE := Some ''../out/./list''\<rparr>)
        ''/home/user/case'')
     = Some ''/data/ens''
   \<and> RUNPATH_FILE (apply_config_content_defaults
        (empty_config\<lparr>RUNPATH_FILE := Some ''/abs/list''\<rparr>) ''/home/user/case'')
     = Some ''/abs/list''"
  using defaults_injected [of empty_config "''/home/user/case''"]
        defaults_injected [of "empty_config\<lparr>ENSPATH := Some ''/data/ens'',
                                 RUNPATH_FILE := Some ''../out/./list''\<rparr>" "''/home/user/case''"]
        defaults_injected [of "empty_config\<lparr>RUNPATH_FILE := Some ''/abs/list''\<rparr>"
                              "''/home/user/case''"]
  by (simp add: empty_config_def os_path_isabs_def startswith_def sep_def os_path_join_def
        endswith_def os_path_normpath_def)

subsection \<open>The check of \<^verbatim>\<open>MAX_RUNNING\<close>\<close>

lemma max_running_loop_acc:
  "\<forall>(q, n, vs) \<in> set opts. n = ''MAX_RUNNING'' \<longrightarrow> length vs \<le> 1 \<Longrightarrow>
   max_running_loop W cp opts errs
     = Inr (errs @ map (max_running_error W cp) (filter (offending W) opts))"
proof (induction opts arbitrary: errs)
  case Nil
  then show ?case by simp
next
  case (Cons e opts)
  obtain q n vs where e: "e = (q, n, vs)" by (cases e)
  from Cons.prems have tl: "\<forall>(q, n, vs) \<in> set opts. n = ''MAX_RUNNING'' \<longrightarrow> length vs \<le> 1"
    by simp
  note IH = Cons.IH [OF tl]
  show ?case
  proof (cases "n = ''MAX_RUNNING''")
    case False
    then show ?thesis using IH by (simp add: e offending_def)
  next
    case True
    with Cons.prems e have "length vs \<le> 1" by simp
    then consider "vs = []" | v where "vs = [v]"
      by (cases vs) (auto simp: Suc_le_eq)
    then show ?thesis
    proof cases
      case 1
      then show ?thesis using IH True by (simp add: e offending_def)
    next
      case 2
      then show ?thesis using IH True
        by (cases "py_int W v") (simp_all add: e offending_def max_running_error_def)
    qed
  qed
qed

text \<open>
  The first occurrence of \<^verbatim>\<open>MAX_RUNNING\<close> with two or more values ends the loop with the
  \<^verbatim>\<open>TypeError\<close> of \<^verbatim>\<open>int(*values)\<close>, whatever was collected before.
\<close>

lemma max_running_loop_type_error:
  "\<exists>(q, n, vs) \<in> set opts. n = ''MAX_RUNNING'' \<and> 2 \<le> length vs \<Longrightarrow>
   max_running_loop W cp opts errs = Inl TypeError"
proof (induction opts arbitrary: errs)
  case Nil
  then show ?case by simp
next
  case (Cons e opts)
  obtain q n vs where e: "e = (q, n, vs)" by (cases e)
  show ?case
  proof (cases "n = ''MAX_RUNNING'' \<and> 2 \<le> length vs")
    case True
    then obtain a b cs where "vs = a # b # cs"
      by (cases vs; cases "tl vs") auto
    with True show ?thesis by (simp add: e)
  next
    case False
    with Cons.prems e
    have "\<exists>(q, n, vs) \<in> set opts. n = ''MAX_RUNNING'' \<and> 2 \<le> length vs" by auto
    note IH = Cons.IH [OF this]
    show ?thesis using IH
      by (simp add: e split: list.splits option.splits)
  qed
qed

text \<open>
  C9, as stated, fails: the errors are not always returned as a list. For the occurrence
  \<^verbatim>\<open>QUEUE_OPTION LOCAL MAX_RUNNING 1 2\<close> the call \<^verbatim>\<open>int(*values)\<close> is \<^verbatim>\<open>int("1", "2")\<close>, whose
  \<^verbatim>\<open>TypeError\<close> the function does not catch: it raises, and returns no list.
\<close>

theorem max_running_two_values_raise:
  "validate_queue_option_max_running example_world ''poly.ert''
     (empty_config\<lparr>QUEUE_OPTION := Some [(''LOCAL'', ''MAX_RUNNING'', [''1'', ''2''])]\<rparr>)
   = Inl TypeError"
  by (simp add: validate_queue_option_max_running_def empty_config_def get_list_def)

text \<open>
  C9, amended. \<^verbatim>\<open>_validate_queue_option_max_running\<close> raises \<^verbatim>\<open>TypeError\<close> when some
  \<^verbatim>\<open>QUEUE_OPTION\<close> occurrence named \<^verbatim>\<open>MAX_RUNNING\<close> carries two or more values. Otherwise it
  raises nothing and returns a list with one error for each occurrence in error, in the
  order of the occurrences. An occurrence \<^verbatim>\<open>MAX_RUNNING v\<close> is in error exactly when \<^verbatim>\<open>int(v)\<close>
  fails or is negative; an occurrence of \<^verbatim>\<open>MAX_RUNNING\<close> without a value and an occurrence
  of another option never are. The error of \<^verbatim>\<open>MAX_RUNNING v\<close> quotes \<open>v\<close> and says which of the
  two it is.
\<close>

theorem max_running_errors_listed:
  "validate_queue_option_max_running W cpath config_dict
     = (if \<exists>(q, n, vs) \<in> set (get_list (QUEUE_OPTION config_dict)).
              n = ''MAX_RUNNING'' \<and> 2 \<le> length vs
        then Inl TypeError
        else Inr (map (max_running_error W cpath)
                    (filter (offending W) (get_list (QUEUE_OPTION config_dict)))))
   \<and> (\<forall>q v. offending W (q, ''MAX_RUNNING'', [v])
              = (py_int W v = None \<or> (\<exists>i. py_int W v = Some i \<and> i < 0)))
   \<and> (\<forall>q. \<not> offending W (q, ''MAX_RUNNING'', []))
   \<and> (\<forall>q n vs. n \<noteq> ''MAX_RUNNING'' \<longrightarrow> \<not> offending W (q, n, vs))
   \<and> (\<forall>q v. max_running_error W cpath (q, ''MAX_RUNNING'', [v])
              = Info \<lparr>message =
                        [Lit (if py_int W v = None
                              then ''QUEUE_OPTION MAX_RUNNING is not an integer: ''
                              else ''QUEUE_OPTION MAX_RUNNING is negative: ''),
                         Repr v],
                      filename = Some cpath,
                      origin = ContextList [v]\<rparr>)"
proof -
  let ?opts = "get_list (QUEUE_OPTION config_dict)"
  have 1: "validate_queue_option_max_running W cpath config_dict
     = (if \<exists>(q, n, vs) \<in> set ?opts. n = ''MAX_RUNNING'' \<and> 2 \<le> length vs
        then Inl TypeError
        else Inr (map (max_running_error W cpath) (filter (offending W) ?opts)))"
  proof (cases "\<exists>(q, n, vs) \<in> set ?opts. n = ''MAX_RUNNING'' \<and> 2 \<le> length vs")
    case True
    from max_running_loop_type_error [OF this, of W cpath "[]"] True
    show ?thesis by (simp add: validate_queue_option_max_running_def)
  next
    case False
    then have "\<forall>(q, n, vs) \<in> set ?opts. n = ''MAX_RUNNING'' \<longrightarrow> length vs \<le> 1"
      by (auto simp: not_le less_Suc_eq_le)
    from max_running_loop_acc [OF this, of W cpath "[]"] False
    show ?thesis by (simp add: validate_queue_option_max_running_def)
  qed
  have 2: "\<forall>q v. offending W (q, ''MAX_RUNNING'', [v])
                  = (py_int W v = None \<or> (\<exists>i. py_int W v = Some i \<and> i < 0))"
    by (auto simp: offending_def split: option.splits)
  have 3: "\<forall>q. \<not> offending W (q, ''MAX_RUNNING'', [])"
    by (simp add: offending_def)
  have 4: "\<forall>q n vs. n \<noteq> ''MAX_RUNNING'' \<longrightarrow> \<not> offending W (q, n, vs)"
    by (simp add: offending_def)
  have 5: "\<forall>q v. max_running_error W cpath (q, ''MAX_RUNNING'', [v])
              = Info \<lparr>message =
                        [Lit (if py_int W v = None
                              then ''QUEUE_OPTION MAX_RUNNING is not an integer: ''
                              else ''QUEUE_OPTION MAX_RUNNING is negative: ''),
                         Repr v],
                      filename = Some cpath,
                      origin = ContextList [v]\<rparr>"
    by (simp add: max_running_error_def)
  from 1 2 3 4 5 show ?thesis by blast
qed

theorem max_running_errors_listed_witness:
  "validate_queue_option_max_running example_world ''poly.ert''
     (empty_config\<lparr>QUEUE_OPTION :=
        Some [(''LOCAL'', ''MAX_RUNNING'', [''-4'']),
              (''LSF'', ''LSF_QUEUE'', [''mr'', ''x'']),
              (''LOCAL'', ''MAX_RUNNING'', [''ten'']),
              (''LOCAL'', ''MAX_RUNNING'', [''10'']),
              (''LOCAL'', ''MAX_RUNNING'', [])]\<rparr>)
   = Inr [Info \<lparr>message = [Lit ''QUEUE_OPTION MAX_RUNNING is negative: '', Repr ''-4''],
               filename = Some ''poly.ert'', origin = ContextList [''-4'']\<rparr>,
          Info \<lparr>message = [Lit ''QUEUE_OPTION MAX_RUNNING is not an integer: '', Repr ''ten''],
               filename = Some ''poly.ert'', origin = ContextList [''ten'']\<rparr>]"
  using max_running_errors_listed [of example_world "''poly.ert''" "empty_config\<lparr>QUEUE_OPTION :=
        Some [(''LOCAL'', ''MAX_RUNNING'', [''-4'']),
              (''LSF'', ''LSF_QUEUE'', [''mr'', ''x'']),
              (''LOCAL'', ''MAX_RUNNING'', [''ten'']),
              (''LOCAL'', ''MAX_RUNNING'', [''10'']),
              (''LOCAL'', ''MAX_RUNNING'', [])]\<rparr>"]
  by (simp add: empty_config_def get_list_def offending_def max_running_error_def
        example_world_def example_int_def digit_of_def)

subsection \<open>Equality\<close>

text \<open>
  C10. \<^verbatim>\<open>ErtConfig.__eq__\<close> is false for an object that is not an \<^verbatim>\<open>ErtConfig\<close>; for an
  \<^verbatim>\<open>ErtConfig\<close> it holds exactly when \<^verbatim>\<open>==\<close> holds on every attribute other than
  \<open>warning_infos\<close>, and so its result does not change when the warning lists of the two
  sides are replaced by any others.
\<close>

theorem eq_ignores_warning_infos:
  "\<not> ert_config_eq py_eq s self (OtherObject x)
   \<and> ert_config_eq py_eq s (self\<lparr>warning_infos := w1\<rparr>) (ErtConfigObject (other\<lparr>warning_infos := w2\<rparr>))
       = ert_config_eq py_eq s self (ErtConfigObject other)
   \<and> ert_config_eq py_eq s self (ErtConfigObject other)
       = (\<forall>attr \<in> set vars_of. attr \<noteq> ''warning_infos'' \<longrightarrow>
            py_eq (getattr s self attr) (getattr s other attr))"
proof -
  have 1: "\<not> ert_config_eq py_eq s self (OtherObject x)"
    by (simp add: ert_config_eq_def)
  have 3: "ert_config_eq py_eq s self (ErtConfigObject other)
       = (\<forall>attr \<in> set vars_of. attr \<noteq> ''warning_infos'' \<longrightarrow>
            py_eq (getattr s self attr) (getattr s other attr))" for self other :: "'a ert_config"
    by (auto simp: ert_config_eq_def ignore_attrs_def list_all_iff)
  have g: "attr \<noteq> ''warning_infos'' \<Longrightarrow> getattr s (c\<lparr>warning_infos := w\<rparr>) attr = getattr s c attr"
    for attr w and c :: "'a ert_config"
    by (simp add: getattr_def)
  have 2: "ert_config_eq py_eq s (self\<lparr>warning_infos := w1\<rparr>) (ErtConfigObject (other\<lparr>warning_infos := w2\<rparr>))
       = ert_config_eq py_eq s self (ErtConfigObject other)"
    unfolding 3 using g by auto
  from 1 2 3 show ?thesis by blast
qed

theorem eq_ignores_warning_infos_witness:
  "ert_config_eq (=) example_state
      (example_config\<lparr>warning_infos := [[Lit ''Use of keyword X is deprecated'']]\<rparr>)
      (ErtConfigObject example_config :: (string, nat) py_object)
   \<and> \<not> ert_config_eq (=) example_state example_config
        (ErtConfigObject (example_config\<lparr>ens_path := ''other''\<rparr>) :: (string, nat) py_object)
   \<and> \<not> ert_config_eq (=) example_state example_config (OtherObject (0::nat))"
proof -
  note a = eq_ignores_warning_infos [where py_eq = "(=)" and s = example_state
          and self = "example_config\<lparr>warning_infos := [[Lit ''Use of keyword X is deprecated'']]\<rparr>"
          and x = "0::nat" and ?w1.0 = "[]" and other = example_config and ?w2.0 = "[]"]
  note b = eq_ignores_warning_infos [where py_eq = "(=)" and s = example_state
          and self = example_config and x = "0::nat" and ?w1.0 = "[]"
          and other = "example_config\<lparr>ens_path := ''other''\<rparr>" and ?w2.0 = "[]"]
  have 1: "ert_config_eq (=) example_state
      (example_config\<lparr>warning_infos := [[Lit ''Use of keyword X is deprecated'']]\<rparr>)
      (ErtConfigObject example_config :: (string, nat) py_object)"
    unfolding a [THEN conjunct2, THEN conjunct2]
    by (simp add: vars_of_def getattr_def)
  have 2: "\<not> ert_config_eq (=) example_state example_config
        (ErtConfigObject (example_config\<lparr>ens_path := ''other''\<rparr>) :: (string, nat) py_object)"
    unfolding b [THEN conjunct2, THEN conjunct2]
    by (simp add: vars_of_def getattr_def example_config_def)
  have 3: "\<not> ert_config_eq (=) example_state example_config (OtherObject (0::nat))"
    using b [THEN conjunct1] .
  from 1 2 3 show ?thesis by blast
qed

subsection \<open>The environment of a job\<close>

lemma filter_env_dict_not_empty:
  "filter_env_dict subst_fn d = Inr (Some result, log) \<Longrightarrow> result \<noteq> []"
  by (auto simp: filter_env_dict_def split: sum.splits prod.splits if_splits)

lemma filter_env_dict_empty_is_None:
  "filter_env_loop subst_fn d [] [] = Inr ([], log) \<Longrightarrow> filter_env_dict subst_fn d = Inr (None, log)"
  by (simp add: filter_env_dict_def)

text \<open>
  What one round of the loop of \<^verbatim>\<open>filter_env_dict\<close> does with a value that is not empty
  after substitution: it is dropped, with a warning, exactly when it begins with
  \<^verbatim>\<open><\<close> and ends with \<^verbatim>\<open>>\<close>.
\<close>

lemma filter_env_loop_value:
  "subst_fn v \<noteq> [] \<Longrightarrow>
   filter_env_loop subst_fn ((key, Some v) # rest) result log =
     (if hd (subst_fn v) = CHR ''<'' \<and> last (subst_fn v) = CHR ''>''
      then filter_env_loop subst_fn rest result
             (log @ [[Lit ''Environment variable '', Str (subst_fn key),
                      Lit '' skipped due to unmatched define '', Str (subst_fn v)]])
      else filter_env_loop subst_fn rest
             (AList.update (subst_fn key) (Some (subst_fn v)) result) log)"
  by (simp add: Let_def)

text \<open>
  C7. With no macro defined, the environment \<^verbatim>\<open>{"PATH": "/usr/bin:<ERT_BIN>", "LIB": "<ERT_LIB>"}\<close>
  is filtered to \<^verbatim>\<open>{"PATH": "/usr/bin:<ERT_BIN>"}\<close>: the value that is a macro from its first
  to its last character is dropped with a warning, the value that contains an unresolved
  macro after other text is kept as it is, without a warning.
\<close>

theorem embedded_macro_value_kept:
  "filter_env_dict
     (substituter_substitute example_world [] 0 0
        (Substituter example_world [] 0 0 (example_job ''job'' ''/bin/job'')))
     [(''PATH'', Some ''/usr/bin:<ERT_BIN>''), (''LIB'', Some ''<ERT_LIB>'')]
   = Inr (Some [(''PATH'', Some ''/usr/bin:<ERT_BIN>'')],
          [[Lit ''Environment variable '', Str ''LIB'',
            Lit '' skipped due to unmatched define '', Str ''<ERT_LIB>'']])"
  by (simp add: filter_env_dict_def substituter_substitute_def example_world_def)

subsection \<open>Jobs that are not installed\<close>

text \<open>
  In both loops an occurrence whose job is not installed adds one error and is skipped;
  the loop goes on with the occurrences that follow.
\<close>

lemma forward_model_missing_job_skipped:
  "map_of installed (substitute W t u) = None \<Longrightarrow>
   forward_model_loop W installed t cf ((u, given) # rest) errors jobs s
     = forward_model_loop W installed t cf rest
         (errors @ [Exc (Direct [Lit ''Could not find job '', Repr (substitute W t u),
                                 Lit '' in list of installed jobs: '', ReprList (map fst installed)]
                           (Some cf))])
         jobs s"
  by (simp add: Let_def)

lemma simulation_job_missing_job_skipped:
  "map_of installed n = None \<Longrightarrow>
   simulation_job_loop installed cf ((n, args) # rest) errors jobs s
     = simulation_job_loop installed cf rest
         (errors @ [Exc (Direct [Lit ''Could not find job '', Repr n,
                                 Lit '' in list of installed jobs.''] (Some cf))])
         jobs s"
  by simp

text \<open>
  C4. A \<^verbatim>\<open>SIMULATION_JOB\<close> occurrence that names a job which is not installed is reported
  by a message that does not list the installed jobs, where a \<^verbatim>\<open>FORWARD_MODEL\<close> occurrence
  of the same name is reported with the list.
\<close>

theorem simulation_job_error_lists_no_names:
  "read_forward_model example_world [(''echo'', 0)] []
     (empty_config\<lparr>SIMULATION_JOB := Some [(''nope'', [])]\<rparr>) ''poly.ert'' example_state
   = (Inl (ConfigValidationError
            (FromCollected
               [Exc (Direct [Lit ''Could not find job '', Repr ''nope'',
                             Lit '' in list of installed jobs.'']
                       (Some ''poly.ert''))])),
      example_state)
   \<and> read_forward_model example_world [(''echo'', 0)] []
     (empty_config\<lparr>FORWARD_MODEL := Some [(''nope'', None)]\<rparr>) ''poly.ert'' example_state
   = (Inl (ConfigValidationError
            (FromCollected
               [Exc (Direct [Lit ''Could not find job '', Repr ''nope'',
                             Lit '' in list of installed jobs: '', ReprList [''echo'']]
                       (Some ''poly.ert''))])),
      example_state)"
  by (simp add: read_forward_model_def empty_config_def get_list_def example_world_def)

subsection \<open>The store\<close>

lemma with_private_args_sel [simp]:
  "private_args (with_private_args job p) = p"
  "name (with_private_args job p) = name job"
  "executable (with_private_args job p) = executable job"
  "arglist (with_private_args job p) = arglist job"
  "environment (with_private_args job p) = environment job"
  "exec_env (with_private_args job p) = exec_env job"
  by (simp_all add: with_private_args_def)

lemma with_private_args_id [simp]:
  "with_private_args job (private_args job) = job"
  by (simp add: with_private_args_def)

lemma with_private_args_twice [simp]:
  "with_private_args (with_private_args job p) q = with_private_args job q"
  by (simp add: with_private_args_def)

lemma job_value_new_ext_job:
  "new_ext_job job s = (a, s') \<Longrightarrow> job_value s' a = job"
  by (auto simp: new_ext_job_def new_subst_list_def job_value_def Let_def nth_append)

lemma extends_refl [simp]: "extends s s"
  by (simp add: extends_def)

lemma extends_iff:
  "extends s s' \<longleftrightarrow> (\<exists>js ts. ext_jobs s' = ext_jobs s @ js \<and> subst_lists s' = subst_lists s @ ts)"
proof
  assume "extends s s'"
  then have "ext_jobs s' = ext_jobs s @ drop (length (ext_jobs s)) (ext_jobs s')"
       "subst_lists s' = subst_lists s @ drop (length (subst_lists s)) (subst_lists s')"
    unfolding extends_def by (metis append_take_drop_id)+
  then show "\<exists>js ts. ext_jobs s' = ext_jobs s @ js \<and> subst_lists s' = subst_lists s @ ts"
    by blast
next
  assume "\<exists>js ts. ext_jobs s' = ext_jobs s @ js \<and> subst_lists s' = subst_lists s @ ts"
  then show "extends s s'" by (auto simp: extends_def)
qed

lemma extends_trans: "extends s s1 \<Longrightarrow> extends s1 s2 \<Longrightarrow> extends s s2"
  unfolding extends_iff by auto

lemma extends_length:
  "extends s s' \<Longrightarrow> length (ext_jobs s) \<le> length (ext_jobs s')"
  "extends s s' \<Longrightarrow> length (subst_lists s) \<le> length (subst_lists s')"
  unfolding extends_iff by auto

lemma extends_nth:
  "extends s s' \<Longrightarrow> a < length (ext_jobs s) \<Longrightarrow> ext_jobs s' ! a = ext_jobs s ! a"
  "extends s s' \<Longrightarrow> p < length (subst_lists s) \<Longrightarrow> subst_lists s' ! p = subst_lists s ! p"
  unfolding extends_iff by (auto simp: nth_append)

lemma heap_ok_nth:
  "heap_ok s \<Longrightarrow> a < length (ext_jobs s) \<Longrightarrow> private_args (ext_jobs s ! a) < length (subst_lists s)"
  by (simp add: heap_ok_def list_all_length)

lemma extends_job_value:
  "extends s s' \<Longrightarrow> heap_ok s \<Longrightarrow> a < length (ext_jobs s) \<Longrightarrow> job_value s' a = job_value s a"
  by (simp add: job_value_def extends_nth heap_ok_nth)

lemma extends_table_at:
  "extends s s' \<Longrightarrow> a < length (ext_jobs s) \<Longrightarrow> table_at s' a = table_at s a"
  by (simp add: table_at_def extends_nth)

lemma heap_ok_grow:
  assumes "heap_ok s" and "private_args job < length (subst_lists s) + length ts"
  shows "heap_ok (s\<lparr>ext_jobs := ext_jobs s @ [job], subst_lists := subst_lists s @ ts\<rparr>)"
  using assms by (auto simp: heap_ok_def list_all_length nth_append)

lemma heap_ok_table_at:
  "heap_ok s \<Longrightarrow> j < length (ext_jobs s) \<Longrightarrow> table_at s j < length (subst_lists s)"
  by (simp add: table_at_def heap_ok_nth)

lemma extends_job_value_local:
  "extends s s' \<Longrightarrow> a < length (ext_jobs s) \<Longrightarrow>
   private_args (ext_jobs s ! a) < length (subst_lists s) \<Longrightarrow> job_value s' a = job_value s a"
  by (simp add: job_value_def extends_nth)

lemma new_ext_job_props:
  assumes "new_ext_job job s = (a, s1)"
  shows "a = length (ext_jobs s)" and "a < length (ext_jobs s1)"
    and "private_args (ext_jobs s1 ! a) < length (subst_lists s1)"
    and "ext_jobs s1 ! a = with_private_args job (length (subst_lists s))"
    and "extends s s1" and "warned s1 = warned s"
  using assms
  by (auto simp: new_ext_job_def new_subst_list_def Let_def nth_append extends_def)

lemma extends_warn [simp]: "extends s (warn m s')  \<longleftrightarrow> extends s s'"
  by (simp add: extends_def warn_def)

lemma warn_fields [simp]:
  "ext_jobs (warn m s) = ext_jobs s" "subst_lists (warn m s) = subst_lists s"
  "warned (warn m s) = warned s @ [m]"
  by (simp_all add: warn_def)

lemma job_value_warn [simp]: "job_value (warn m s) a = job_value s a"
  by (simp add: job_value_def)

subsection \<open>Duplicate job names\<close>

text \<open>
  C5, as stated, fails: with \<^verbatim>\<open>INSTALL_JOB echo /jobs/A\<close> followed by
  \<^verbatim>\<open>INSTALL_JOB echo /jobs/B\<close> the one warning names the new file \<^verbatim>\<open>/jobs/B\<close> and the
  executable \<^verbatim>\<open>/bin/a\<close> of the job installed before; the old file \<^verbatim>\<open>/jobs/A\<close> is not in it.
\<close>

theorem duplicate_warning_omits_old_source:
  "warned (snd (installed_jobs_from_dict example_world
                  (empty_config\<lparr>INSTALL_JOB := Some [(''echo'', ''/jobs/A''), (''echo'', ''/jobs/B'')]\<rparr>)
                  empty_state))
     = [[Lit ''Duplicate forward model job with name '', Repr ''echo'', Lit '', choosing '',
         Repr ''/jobs/B'', Lit '' over '', Repr ''/bin/a'']]
   \<and> Repr ''/jobs/A'' \<notin> set [Lit ''Duplicate forward model job with name '', Repr ''echo'',
         Lit '', choosing '', Repr ''/jobs/B'', Lit '' over '', Repr ''/bin/a'']"
  by (simp add: installed_jobs_from_dict_def empty_config_def get_list_def example_world_def
        os_path_isabs_def startswith_def sep_def empty_state_def register_job_def new_ext_job_def
        new_subst_list_def Let_def warn_def duplicate_warning_def example_job_def
        with_private_args_def)

lemma names_job_duplicate_warning [simp]:
  "names_job n (duplicate_warning m chosen previous) \<longleftrightarrow> m = n"
  by (simp add: names_job_def duplicate_warning_def)

text \<open>
  The one loop over the declarations does what the loops of \<^verbatim>\<open>_installed_jobs_from_dict\<close> do.
\<close>

lemma run_steps_append:
  "run_steps W (xs @ ys) errors jobs s =
     (case run_steps W xs errors jobs s of
        (Inl e, s1) \<Rightarrow> (Inl e, s1)
      | (Inr (errors1, jobs1), s1) \<Rightarrow> run_steps W ys errors1 jobs1 s1)"
proof (induction xs arbitrary: errors jobs s)
  case Nil
  then show ?case by simp
next
  case (Cons step xs)
  show ?case
    by (cases step) (simp_all add: Cons.IH Let_def split: sum.splits py_exn.splits prod.splits)
qed

lemma install_job_loop_steps:
  "install_job_loop W decls errors jobs s
     = run_steps W (map (\<lambda>(job_name, path). LoadJob (Some job_name) (abspath W path)) decls)
         errors jobs s"
proof (induction decls arbitrary: errors jobs s)
  case Nil
  then show ?case by simp
next
  case (Cons d decls)
  obtain m p where d: "d = (m, p)" by (cases d)
  show ?case
    by (simp add: d Cons.IH Let_def split: sum.splits py_exn.splits prod.splits)
qed

lemma job_files_loop_steps:
  "job_files_loop W job_path files errors jobs s
     = run_steps W
         (map (\<lambda>f. LoadJob None (abspath W (os_path_join job_path f)))
            (filter (\<lambda>f. isfile W (abspath W (os_path_join job_path f))) files))
         errors jobs s"
proof (induction files arbitrary: errors jobs s)
  case Nil
  then show ?case by simp
next
  case (Cons f files)
  show ?case
    by (simp add: Cons.IH Let_def split: sum.splits py_exn.splits prod.splits)
qed

lemma install_job_directory_loop_steps:
  "install_job_directory_loop W dirs errors jobs s
     = run_steps W (concat (map (directory_steps W) dirs)) errors jobs s"
proof (induction dirs arbitrary: errors jobs s)
  case Nil
  then show ?case by simp
next
  case (Cons d dirs)
  show ?case
    by (simp add: Cons.IH run_steps_append directory_steps_def job_files_loop_steps Let_def
          split: sum.splits prod.splits)
qed

lemma installed_jobs_from_dict_steps:
  "installed_jobs_from_dict W config_dict s =
     (case run_steps W (install_steps W config_dict) [] [] s of
        (Inl e, s2) \<Rightarrow> (Inl e, s2)
      | (Inr (errors, jobs), s2) \<Rightarrow>
          if errors \<noteq> [] then (Inl (ConfigValidationError (FromCollected errors)), s2)
          else (Inr jobs, s2))"
  by (simp add: installed_jobs_from_dict_def install_steps_def run_steps_append
        install_job_loop_steps install_job_directory_loop_steps
        split: sum.splits prod.splits)


lemma names_job_no_files [simp]:
  "\<not> names_job n [Lit ''No files found in job directory '', Str job_path]"
  by (simp add: names_job_def)

text \<open>
  Declarations of other names that all load, and directories without files, leave the
  binding of \<open>n\<close> and the objects of the store as they are, collect no error and emit no
  warning about \<open>n\<close>.
\<close>

lemma run_steps_others:
  assumes "\<forall>step \<in> set steps. installs_other W n step"
  shows "\<exists>jobs' s' ws. run_steps W steps errors jobs s = (Inr (errors, jobs'), s')
           \<and> map_of jobs' n = map_of jobs n \<and> extends s s'
           \<and> warned s' = warned s @ ws \<and> filter (names_job n) ws = []"
  using assms
proof (induction steps arbitrary: jobs s)
  case Nil
  then show ?case by simp
next
  case (Cons step steps)
  from Cons.prems have this_step: "installs_other W n step"
    and rest: "\<forall>step \<in> set steps. installs_other W n step" by simp_all
  show ?case
  proof (cases step)
    case (LoadJob given path)
    from this_step LoadJob obtain job where
      job: "ExtJob_from_config_file W given path = Inr job"
      and mn: "(case given of Some m \<Rightarrow> m | None \<Rightarrow> name job) \<noteq> n"
      by (auto simp: installs_other_def installs_def split: sum.splits)
    define m where "m = (case given of Some m \<Rightarrow> m | None \<Rightarrow> name job)"
    obtain a s1 where n1: "new_ext_job job s = (a, s1)" by (cases "new_ext_job job s")
    note p1 = new_ext_job_props [OF n1]
    define s2 where "s2 = (case map_of jobs m of
                    Some old \<Rightarrow>
                      warn (duplicate_warning m path (executable (ext_jobs s1 ! old))) s1
                  | None \<Rightarrow> s1)"
    have r: "register_job m path job jobs s = (AList.update m a jobs, s2)"
      by (simp add: register_job_def n1 s2_def)
    have e2: "extends s s2" using p1(5) by (simp add: s2_def split: option.splits)
    obtain w2 where w2: "warned s2 = warned s @ w2" "filter (names_job n) w2 = []"
      using p1(6) mn by (cases "map_of jobs m") (auto simp: s2_def m_def)
    from Cons.IH [OF rest, of "AList.update m a jobs" s2]
    obtain jobs' s' ws where
      l: "run_steps W steps errors (AList.update m a jobs) s2 = (Inr (errors, jobs'), s')"
      and m': "map_of jobs' n = map_of (AList.update m a jobs) n"
      and e': "extends s2 s'"
      and w': "warned s' = warned s2 @ ws" "filter (names_job n) ws = []"
      by blast
    have 1: "run_steps W (step # steps) errors jobs s = (Inr (errors, jobs'), s')"
      using r l by (simp add: LoadJob job m_def)
    have 2: "map_of jobs' n = map_of jobs n" using m' mn by (simp add: update_conv' m_def)
    have 3: "extends s s'" using extends_trans [OF e2 e'] .
    have 4: "warned s' = warned s @ (w2 @ ws)" "filter (names_job n) (w2 @ ws) = []"
      using w2 w' by simp_all
    from 1 2 3 4 show ?thesis by blast
  next
    case (NoFiles job_path)
    let ?w = "[Lit ''No files found in job directory '', Str job_path]"
    from Cons.IH [OF rest, of jobs "warn ?w s"]
    obtain jobs' s' ws where
      l: "run_steps W steps errors jobs (warn ?w s) = (Inr (errors, jobs'), s')"
      and m': "map_of jobs' n = map_of jobs n"
      and e': "extends (warn ?w s) s'"
      and w': "warned s' = warned (warn ?w s) @ ws" "filter (names_job n) ws = []"
      by blast
    have 1: "run_steps W (step # steps) errors jobs s = (Inr (errors, jobs'), s')"
      using l by (simp add: NoFiles)
    have "extends s (warn ?w s)" by simp
    then have 3: "extends s s'" using e' by (rule extends_trans)
    have 4: "warned s' = warned s @ (?w # ws)" "filter (names_job n) (?w # ws) = []"
      using w' by simp_all
    from 1 m' 3 4 show ?thesis by blast
  next
    case (NoDirectory job_path)
    with this_step show ?thesis by (simp add: installs_other_def)
  qed
qed

text \<open>
  C5, amended. Let two declarations install the same name, be they \<^verbatim>\<open>INSTALL_JOB\<close>
  occurrences or files of \<^verbatim>\<open>INSTALL_JOB_DIRECTORY\<close> directories, let no other declaration
  install it, let every directory exist and every job file load. Then
  \<^verbatim>\<open>_installed_jobs_from_dict\<close> raises nothing, the registry binds the name to the job of the
  second declaration, and exactly one of the warnings emitted is about this name; it
  names the job, the configuration file of the second declaration and the executable of
  the job of the first.
\<close>

theorem duplicate_job_last_wins:
  assumes steps: "install_steps W config_dict
                    = pre @ [LoadJob givenA fileA] @ mid @ [LoadJob givenB fileB] @ post"
    and jobA: "installs W (LoadJob givenA fileA) = Some (n, jobA)"
    and jobB: "installs W (LoadJob givenB fileB) = Some (n, jobB)"
    and others: "\<forall>step \<in> set (pre @ mid @ post). installs_other W n step"
  shows "\<exists>jobs s' a ws.
           installed_jobs_from_dict W config_dict s = (Inr jobs, s')
         \<and> map_of jobs n = Some a \<and> job_value s' a = jobB
         \<and> warned s' = warned s @ ws
         \<and> filter (names_job n) ws = [duplicate_warning n fileB (executable jobA)]"
proof -
  have o: "\<forall>step \<in> set pre. installs_other W n step"
    "\<forall>step \<in> set mid. installs_other W n step"
    "\<forall>step \<in> set post. installs_other W n step"
    using others by auto
  from jobA have lA: "ExtJob_from_config_file W givenA fileA = Inr jobA"
    and nA': "(case givenA of Some m \<Rightarrow> m | None \<Rightarrow> name jobA) = n"
    by (auto simp: installs_def split: sum.splits)
  from jobB have lB: "ExtJob_from_config_file W givenB fileB = Inr jobB"
    and nB': "(case givenB of Some m \<Rightarrow> m | None \<Rightarrow> name jobB) = n"
    by (auto simp: installs_def split: sum.splits)
  \<comment> \<open>the declarations before the first one of \<open>n\<close>\<close>
  from run_steps_others [OF o(1), of "[]" "[]" s]
  obtain jobs1 s1 ws1 where
    l1: "run_steps W pre [] [] s = (Inr ([], jobs1), s1)"
    and m1: "map_of jobs1 n = None"
    and w1: "warned s1 = warned s @ ws1" "filter (names_job n) ws1 = []"
    by auto
  \<comment> \<open>the first declaration of \<open>n\<close>\<close>
  obtain aA s2 where nA: "new_ext_job jobA s1 = (aA, s2)" by (cases "new_ext_job jobA s1")
  note pA = new_ext_job_props [OF nA]
  have rA: "register_job n fileA jobA jobs1 s1 = (AList.update n aA jobs1, s2)"
    by (simp add: register_job_def nA m1)
  \<comment> \<open>the declarations between the two\<close>
  from run_steps_others [OF o(2), of "[]" "AList.update n aA jobs1" s2]
  obtain jobs3 s3 ws3 where
    l3: "run_steps W mid [] (AList.update n aA jobs1) s2 = (Inr ([], jobs3), s3)"
    and m3: "map_of jobs3 n = Some aA"
    and e3: "extends s2 s3"
    and w3: "warned s3 = warned s2 @ ws3" "filter (names_job n) ws3 = []"
    by (auto simp: update_conv')
  \<comment> \<open>the second declaration of \<open>n\<close>\<close>
  obtain aB s4 where nB: "new_ext_job jobB s3 = (aB, s4)" by (cases "new_ext_job jobB s3")
  note pB = new_ext_job_props [OF nB]
  have "ext_jobs s4 ! aA = ext_jobs s2 ! aA"
    using extends_nth(1) [OF extends_trans [OF e3 pB(5)] pA(2)] .
  then have x: "executable (ext_jobs s4 ! aA) = executable jobA" by (simp add: pA(4))
  let ?w = "duplicate_warning n fileB (executable jobA)"
  have rB: "register_job n fileB jobB jobs3 s3 = (AList.update n aB jobs3, warn ?w s4)"
    by (simp add: register_job_def nB m3 x)
  \<comment> \<open>the declarations after\<close>
  from run_steps_others [OF o(3), of "[]" "AList.update n aB jobs3" "warn ?w s4"]
  obtain jobs5 s5 ws5 where
    l5: "run_steps W post [] (AList.update n aB jobs3) (warn ?w s4) = (Inr ([], jobs5), s5)"
    and m5: "map_of jobs5 n = Some aB"
    and e5: "extends (warn ?w s4) s5"
    and w5: "warned s5 = warned (warn ?w s4) @ ws5" "filter (names_job n) ws5 = []"
    by (auto simp: update_conv')
  have loop: "run_steps W (pre @ [LoadJob givenA fileA] @ mid @ [LoadJob givenB fileB] @ post)
                [] [] s = (Inr ([], jobs5), s5)"
    by (simp add: run_steps_append l1 lA nA' rA l3 lB nB' rB l5)
  have 1: "installed_jobs_from_dict W config_dict s = (Inr jobs5, s5)"
    using loop by (simp add: installed_jobs_from_dict_steps steps)
  have "job_value s5 aB = job_value (warn ?w s4) aB"
    using extends_job_value_local [OF e5] pB(2,3) by simp
  then have 2: "job_value s5 aB = jobB" using job_value_new_ext_job [OF nB] by simp
  have 3: "warned s5 = warned s @ (ws1 @ ws3 @ [?w] @ ws5)"
    using w1 w3 w5 pA(6) pB(6) by simp
  have 4: "filter (names_job n) (ws1 @ ws3 @ [?w] @ ws5) = [?w]"
    using w1 w3 w5 by simp
  from 1 m5 2 3 4 show ?thesis by blast
qed

theorem duplicate_job_last_wins_witness:
  "\<exists>jobs s' a. installed_jobs_from_dict example_world
             (empty_config\<lparr>INSTALL_JOB := Some [(''B'', ''/jobs/A'')],
                           INSTALL_JOB_DIRECTORY := Some [''/jobs'']\<rparr>)
             empty_state = (Inr jobs, s')
           \<and> map_of jobs ''B'' = Some a
           \<and> job_value s' a = example_job ''B'' ''/bin/b''
           \<and> filter (names_job ''B'') (warned s')
               = [duplicate_warning ''B'' ''/jobs/B'' ''/bin/a'']"
proof -
  let ?cfg = "empty_config\<lparr>INSTALL_JOB := Some [(''B'', ''/jobs/A'')],
                           INSTALL_JOB_DIRECTORY := Some [''/jobs'']\<rparr>"
  have h1: "install_steps example_world ?cfg
              = [] @ [LoadJob (Some ''B'') ''/jobs/A''] @ [LoadJob None ''/jobs/A'']
                   @ [LoadJob None ''/jobs/B''] @ []"
    by (simp add: install_steps_def directory_steps_def empty_config_def get_list_def
          example_world_def os_path_isabs_def os_path_join_def startswith_def endswith_def sep_def)
  have h2: "installs example_world (LoadJob (Some ''B'') ''/jobs/A'')
              = Some (''B'', example_job ''B'' ''/bin/a'')"
    by (simp add: installs_def example_world_def)
  have h3: "installs example_world (LoadJob None ''/jobs/B'')
              = Some (''B'', example_job ''B'' ''/bin/b'')"
    by (simp add: installs_def example_world_def example_job_def)
  have h4: "\<forall>step \<in> set ([] @ [LoadJob None ''/jobs/A''] @ []). installs_other example_world ''B'' step"
    by (simp add: installs_other_def installs_def example_world_def example_job_def)
  have ex: "executable (example_job ''B'' ''/bin/a'') = ''/bin/a''"
    by (simp add: example_job_def)
  from duplicate_job_last_wins [OF h1 h2 h3 h4, of empty_state]
  obtain jobs s' a ws where
    "installed_jobs_from_dict example_world ?cfg empty_state = (Inr jobs, s')"
    "map_of jobs ''B'' = Some a" "job_value s' a = example_job ''B'' ''/bin/b''"
    "warned s' = warned empty_state @ ws"
    "filter (names_job ''B'') ws = [duplicate_warning ''B'' ''/jobs/B'' ''/bin/a'']"
    unfolding ex by blast
  moreover from this have "filter (names_job ''B'') (warned s')
               = [duplicate_warning ''B'' ''/jobs/B'' ''/bin/a'']"
    by (simp add: empty_state_def)
  ultimately show ?thesis by blast
qed

subsection \<open>Hooks\<close>

lemma hook_workflow_loop_errors:
  "fst (hook_workflow_loop W wflows hooks errs hooked)
     = errs @ map (hook_error W) (filter (hook_failing W wflows) hooks)"
proof (induction hooks arbitrary: errs hooked)
  case Nil
  then show ?case by simp
next
  case (Cons h hooks)
  obtain hook_name mode_name where h: "h = (hook_name, mode_name)" by (cases h)
  show ?case
    by (cases "HookRuntime W mode_name"; cases "map_of wflows hook_name")
       (simp_all add: h Cons.IH hook_failing_def hook_error_def)
qed

text \<open>An occurrence that the loop rejects leaves the bindings as they are.\<close>

lemma hook_workflow_loop_bindings:
  "snd (hook_workflow_loop W wflows hooks errs hooked)
     = snd (hook_workflow_loop W wflows (filter (\<lambda>h. \<not> hook_failing W wflows h) hooks) [] hooked)"
proof (induction hooks arbitrary: errs hooked)
  case Nil
  then show ?case by simp
next
  case (Cons h hooks)
  obtain hook_name mode_name where h: "h = (hook_name, mode_name)" by (cases h)
  show ?case
    by (cases "HookRuntime W mode_name"; cases "map_of wflows hook_name")
       (simp_all add: h Cons.IH [where errs = "errs @ _"] Cons.IH [where errs = errs] Cons.IH [where errs = "[]"] hook_failing_def)
qed

text \<open>
  C8, as stated, fails: when a workflow job file is malformed, \<^verbatim>\<open>_workflows_from_dict\<close> raises
  the errors of the workflow jobs before it reads the hooks, and the error raised for
  \<^verbatim>\<open>HOOK_WORKFLOW no_such_workflow PRE_SIMULATION\<close> together with a malformed \<^verbatim>\<open>/wf/bad\<close> does
  not mention \<^verbatim>\<open>no_such_workflow\<close>.
\<close>

theorem hook_error_hidden_by_job_error:
  "workflows_from_dict example_world
     (empty_config\<lparr>LOAD_WORKFLOW_JOB := Some [(''/wf/bad'', None)],
                   HOOK_WORKFLOW := Some [(''no_such_workflow'', ''PRE_SIMULATION'')]\<rparr>)
     [] empty_state
   = (Inl (ConfigValidationError
            (FromCollected
               [Info \<lparr>message = [Str ''malformed''], filename = Some ''/wf/bad'',
                      origin = Context ''/wf/bad''\<rparr>])),
      empty_state)
   \<and> Repr ''no_such_workflow'' \<notin> set [Str ''malformed'']"
  by (simp add: workflows_from_dict_def empty_config_def get_list_def example_world_def
        newlines_to_semicolons_def)

text \<open>
  C8, amended. When the workflow jobs were loaded without a hard error and the workflows
  were read, and some \<^verbatim>\<open>HOOK_WORKFLOW\<close> occurrence names a stage that \<^verbatim>\<open>HookRuntime\<close> does not
  have or a workflow that is not loaded, \<^verbatim>\<open>_workflows_from_dict\<close> raises one
  \<^verbatim>\<open>ConfigValidationError\<close> collected from one error for each such occurrence, in their
  order; the error of an occurrence quotes its stage name when the stage is unknown and
  its workflow name otherwise. As the function raises, it returns no binding.
\<close>

theorem failing_hooks_raise_together:
  assumes "load_workflow_job_loop W (get_list (LOAD_WORKFLOW_JOB content_dict)) [] [] s
             = (Inr ([], wjobs1), s1)"
    and "workflow_job_directory_loop W (get_list (WORKFLOW_JOB_DIRECTORY content_dict)) [] wjobs1 s1
             = (Inr ([], wjobs), s2)"
    and "load_workflow_loop W substitutions wjobs (get_list (LOAD_WORKFLOW content_dict)) [] s2
             = (Inr wflows, s3)"
    and "(hook_name, mode_name) \<in> set (get_list (HOOK_WORKFLOW content_dict))"
    and "HookRuntime W mode_name = None \<or> map_of wflows hook_name = None"
  shows "workflows_from_dict W content_dict substitutions s
           = (Inl (ConfigValidationError
                     (FromCollected
                        (map (hook_error W)
                           (filter (hook_failing W wflows) (get_list (HOOK_WORKFLOW content_dict)))))),
              s3)
       \<and> hook_error W (hook_name, mode_name)
            \<in> set (map (hook_error W)
                     (filter (hook_failing W wflows) (get_list (HOOK_WORKFLOW content_dict))))
       \<and> hook_error W (hook_name, mode_name)
            = (if HookRuntime W mode_name = None
               then Exc (Direct [Lit ''Run mode '', Repr mode_name,
                                 Lit '' not supported for Hook Workflow''] None)
               else Info \<lparr>message = [Lit ''Cannot setup hook for non-existing job name '',
                                     Repr hook_name],
                          filename = None, origin = Context hook_name\<rparr>)"
proof -
  let ?hooks = "get_list (HOOK_WORKFLOW content_dict)"
  let ?errs = "map (hook_error W) (filter (hook_failing W wflows) ?hooks)"
  have f: "hook_failing W wflows (hook_name, mode_name)"
    using assms(5) by (simp add: hook_failing_def)
  with assms(4) have m: "hook_error W (hook_name, mode_name) \<in> set ?errs" by auto
  then have ne: "?errs \<noteq> []" by (metis empty_iff list.set(1))
  obtain errors hooked where l: "hook_workflow_loop W wflows ?hooks [] [] = (errors, hooked)"
    by (cases "hook_workflow_loop W wflows ?hooks [] []")
  with hook_workflow_loop_errors [of W wflows ?hooks "[]" "[]"] have e: "errors = ?errs" by simp
  have "workflows_from_dict W content_dict substitutions s
           = (Inl (ConfigValidationError (FromCollected ?errs)), s3)"
    using assms(1-3) l ne by (simp add: workflows_from_dict_def e)
  moreover have "hook_error W (hook_name, mode_name)
            = (if HookRuntime W mode_name = None
               then Exc (Direct [Lit ''Run mode '', Repr mode_name,
                                 Lit '' not supported for Hook Workflow''] None)
               else Info \<lparr>message = [Lit ''Cannot setup hook for non-existing job name '',
                                     Repr hook_name],
                          filename = None, origin = Context hook_name\<rparr>)"
    by (simp add: hook_error_def)
  ultimately show ?thesis using m by blast
qed

theorem failing_hooks_raise_together_witness:
  "workflows_from_dict example_world
     (empty_config\<lparr>LOAD_WORKFLOW := Some [(''/wf/flow1'', None)],
                   HOOK_WORKFLOW := Some [(''no_such_workflow'', ''PRE_SIMULATION''),
                                          (''flow1'', ''POST_UPDATE''),
                                          (''flow1'', ''PRE_SIM'')]\<rparr>) [] empty_state
   = (Inl (ConfigValidationError
            (FromCollected
               [Info \<lparr>message = [Lit ''Cannot setup hook for non-existing job name '',
                                  Repr ''no_such_workflow''],
                      filename = None, origin = Context ''no_such_workflow''\<rparr>,
                Exc (Direct [Lit ''Run mode '', Repr ''PRE_SIM'',
                             Lit '' not supported for Hook Workflow''] None)])),
      empty_state)"
  using failing_hooks_raise_together [where W = example_world and s = empty_state
      and ?s1.0 = empty_state and ?s2.0 = empty_state and ?s3.0 = empty_state
      and ?wjobs1.0 = "[]" and wjobs = "[]" and wflows = "[(''flow1'', ''/wf/flow1'')]"
      and substitutions = "[]" and hook_name = "''no_such_workflow''"
      and mode_name = "''PRE_SIMULATION''"
      and content_dict = "empty_config\<lparr>LOAD_WORKFLOW := Some [(''/wf/flow1'', None)],
                   HOOK_WORKFLOW := Some [(''no_such_workflow'', ''PRE_SIMULATION''),
                                          (''flow1'', ''POST_UPDATE''),
                                          (''flow1'', ''PRE_SIM'')]\<rparr>"]
  by (simp add: empty_config_def get_list_def example_world_def os_path_basename_def sep_def
        hook_failing_def hook_error_def)

subsection \<open>Two errors at once\<close>

text \<open>
  C2. When the dictionary has \<^verbatim>\<open>SUMMARY\<close> and no \<^verbatim>\<open>ECLBASE\<close>, and exactly one \<^verbatim>\<open>QUEUE_OPTION\<close>
  occurrence is in error, a \<^verbatim>\<open>MAX_RUNNING\<close> whose value \<^verbatim>\<open>int\<close> rejects, \<^verbatim>\<open>from_dict\<close> raises a
  \<^verbatim>\<open>ConfigValidationError\<close> collected from exactly two errors: the one of \<^verbatim>\<open>SUMMARY\<close> and the one
  of \<^verbatim>\<open>MAX_RUNNING\<close>.
\<close>

theorem two_errors_collected:
  assumes "SUMMARY config_dict = Some ((kw # args) # others)"
    and "ECLBASE config_dict = None"
    and "\<forall>(q, n, vs) \<in> set (get_list (QUEUE_OPTION config_dict)).
           n = ''MAX_RUNNING'' \<longrightarrow> length vs \<le> 1"
    and "filter (offending W) (get_list (QUEUE_OPTION config_dict)) = [(q, ''MAX_RUNNING'', [v])]"
    and "py_int W v = None"
  shows "from_dict W config_dict s
           = (Inl (ConfigValidationError
                     (FromCollected
                        [Info \<lparr>message = [Lit ''When using SUMMARY keyword, the config must also specify ECLBASE''],
                               filename = Some (config_file_of W config_dict),
                               origin = ContextKeyword kw\<rparr>,
                         Info \<lparr>message = [Lit ''QUEUE_OPTION MAX_RUNNING is not an integer: '',
                                           Repr v],
                               filename = Some (config_file_of W config_dict),
                               origin = ContextList [v]\<rparr>])),
              s)"
proof -
  have 1: "validate_dict config_dict (config_file_of W config_dict)
             = Inr [Info \<lparr>message = [Lit ''When using SUMMARY keyword, the config must also specify ECLBASE''],
                          filename = Some (config_file_of W config_dict),
                          origin = ContextKeyword kw\<rparr>]"
    using assms(1,2) by (simp add: validate_dict_def)
  have 2: "validate_queue_option_max_running W (config_file_of W config_dict) config_dict
             = Inr [Info \<lparr>message = [Lit ''QUEUE_OPTION MAX_RUNNING is not an integer: '', Repr v],
                          filename = Some (config_file_of W config_dict),
                          origin = ContextList [v]\<rparr>]"
    unfolding validate_queue_option_max_running_def
    using max_running_loop_acc [OF assms(3), of W "config_file_of W config_dict" "[]"] assms(4,5)
    by (simp add: max_running_error_def)
  show ?thesis by (simp add: from_dict_def Let_def 1 2)
qed

theorem two_errors_collected_witness:
  "from_dict example_world
     (empty_config\<lparr>SUMMARY := Some [[''WOPR*'']],
                   QUEUE_OPTION := Some [(''LOCAL'', ''MAX_RUNNING'', [''many'']),
                                         (''LOCAL'', ''MAX_RUNNING'', [''4''])]\<rparr>) empty_state
   = (Inl (ConfigValidationError
            (FromCollected
               [Info \<lparr>message = [Lit ''When using SUMMARY keyword, the config must also specify ECLBASE''],
                      filename = Some ''poly.ert'', origin = ContextKeyword ''WOPR*''\<rparr>,
                Info \<lparr>message = [Lit ''QUEUE_OPTION MAX_RUNNING is not an integer: '', Repr ''many''],
                      filename = Some ''poly.ert'', origin = ContextList [''many'']\<rparr>])),
      empty_state)"
  using two_errors_collected [where W = example_world and s = empty_state and kw = "''WOPR*''"
      and args = "[]" and others = "[]" and q = "''LOCAL''" and v = "''many''"
      and config_dict = "empty_config\<lparr>SUMMARY := Some [[''WOPR*'']],
                   QUEUE_OPTION := Some [(''LOCAL'', ''MAX_RUNNING'', [''many'']),
                                         (''LOCAL'', ''MAX_RUNNING'', [''4''])]\<rparr>"]
  by (simp add: empty_config_def get_list_def offending_def example_int_def
        digit_of_def config_file_of_def initial_substitutions_def example_world_def
        get_default_def)

subsection \<open>Construction is all or nothing\<close>










subsection \<open>Copies of the registry\<close>

text \<open>The copy: one new job object, one new table, same value.\<close>

lemma deepcopy_props:
  assumes "heap_ok s" and "a < length (ext_jobs s)" and "deepcopy a s = (j, s1)"
  shows "j = length (ext_jobs s)"
    and "ext_jobs s1 = ext_jobs s @ [(ext_jobs s ! a)\<lparr>private_args := length (subst_lists s)\<rparr>]"
    and "subst_lists s1 = subst_lists s @ [subst_lists s ! private_args (ext_jobs s ! a)]"
    and "warned s1 = warned s"
  using assms by (auto simp: deepcopy_def new_subst_list_def Let_def)

lemma with_private_args_update [simp]:
  "with_private_args (job\<lparr>private_args := p\<rparr>) q = with_private_args job q"
  "with_private_args (job\<lparr>arglist := args\<rparr>) q = (with_private_args job q)\<lparr>arglist := args\<rparr>"
  by (simp_all add: with_private_args_def)

lemma set_private_args_tables:
  assumes "table_at s j < length (subst_lists s)"
  shows "ext_jobs (set_private_args j ps s) = ext_jobs s
       \<and> warned (set_private_args j ps s) = warned s
       \<and> subst_lists (set_private_args j ps s)
           = (subst_lists s)[table_at s j :=
                fold (\<lambda>(key, val) t. AList.update key val t) ps (subst_lists s ! table_at s j)]"
  using assms
proof (induction ps arbitrary: s)
  case Nil
  then show ?case by simp
next
  case (Cons kv ps)
  obtain key val where kv: "kv = (key, val)" by (cases kv)
  let ?s1 = "set_private_arg j key val s"
  have e: "ext_jobs ?s1 = ext_jobs s" "warned ?s1 = warned s"
    "subst_lists ?s1 = (subst_lists s)[table_at s j := AList.update key val (subst_lists s ! table_at s j)]"
    by (simp_all add: set_private_arg_def Let_def table_at_def)
  then have t: "table_at ?s1 j = table_at s j" by (simp add: table_at_def)
  with Cons.prems e have "table_at ?s1 j < length (subst_lists ?s1)" by simp
  from Cons.IH [OF this] show ?case
    using Cons.prems by (simp add: kv e t)
qed


text \<open>
  One round of the first loop for an occurrence of a registered job whose arguments are
  accepted: the store is extended by the copy and its tables, nothing that was there is
  changed, and the copy holds what the occurrence asks for.
\<close>

lemma forward_model_step:
  assumes ok: "heap_ok s" and a: "a < length (ext_jobs s)"
    and look: "map_of installed (substitute W t u) = Some a"
    and aok: "args_ok W given"
  shows "\<exists>s2. (\<forall>rest errors jobs.
            forward_model_loop W installed t cf ((u, given) # rest) errors jobs s
              = forward_model_loop W installed t cf rest errors (jobs @ [length (ext_jobs s)]) s2)
          \<and> extends s s2 \<and> heap_ok s2
          \<and> length (ext_jobs s2) = Suc (length (ext_jobs s))
          \<and> warned s2 = warned s
          \<and> length (subst_lists s) \<le> table_at s2 (length (ext_jobs s))
          \<and> job_value s2 (length (ext_jobs s)) = resolved W (job_value s a) (u, given)"
proof -
  let ?j = "length (ext_jobs s)"
  let ?m = "length (subst_lists s)"
  let ?T = "subst_lists s ! private_args (ext_jobs s ! a)"
  let ?J = "(ext_jobs s ! a)\<lparr>private_args := ?m\<rparr>"
  let ?s1 = "s\<lparr>ext_jobs := ext_jobs s @ [?J], subst_lists := subst_lists s @ [?T]\<rparr>"
  have d: "deepcopy a s = (?j, ?s1)"
    by (simp add: deepcopy_def new_subst_list_def Let_def)
  have v: "job_value s a = with_private_args (ext_jobs s ! a) ?T"
    by (simp add: job_value_def)
  define args where "args = (case given of Some x \<Rightarrow> x | None \<Rightarrow> ArgPairs [])"
  show ?thesis
  proof (cases "truthy args")
    case False
    then have r: "resolved W (job_value s a) (u, given) = job_value s a"
      by (cases given) (auto simp: resolved_def args_def truthy_def)
    have "\<forall>rest errors jobs.
            forward_model_loop W installed t cf ((u, given) # rest) errors jobs s
              = forward_model_loop W installed t cf rest errors (jobs @ [?j]) ?s1"
      using False look d by (simp add: args_def Let_def)
    moreover have "extends s ?s1" by (simp add: extends_def)
    moreover have "heap_ok ?s1" using heap_ok_grow [OF ok, of ?J "[?T]"] by simp
    moreover have "job_value ?s1 ?j = resolved W (job_value s a) (u, given)"
      using r by (simp add: job_value_def nth_append)
    moreover have "?m \<le> table_at ?s1 ?j" by (simp add: table_at_def)
    ultimately show ?thesis by (intro exI [of _ ?s1]) simp
  next
    case True
    then obtain x where g: "given = Some x" "args = x"
      by (cases given) (auto simp: args_def truthy_def)
    let ?J2 = "(ext_jobs s ! a)\<lparr>private_args := Suc ?m\<rparr>"
    have at: "attach_private_args ?j ?s1
                = s\<lparr>ext_jobs := ext_jobs s @ [?J2], subst_lists := subst_lists s @ [?T, []]\<rparr>"
      by (simp add: attach_private_args_def new_subst_list_def Let_def)
    let ?s2 = "s\<lparr>ext_jobs := ext_jobs s @ [?J2], subst_lists := subst_lists s @ [?T, table_of W x]\<rparr>"
    have r: "resolved W (job_value s a) (u, given) = with_private_args (ext_jobs s ! a) (table_of W x)"
      using True g by (simp add: resolved_def v)
    have "\<forall>rest errors jobs.
            forward_model_loop W installed t cf ((u, given) # rest) errors jobs s
              = forward_model_loop W installed t cf rest errors (jobs @ [?j]) ?s2"
    proof (cases x)
      case (ArgString str)
      with aok g True obtain tb where tb: "add_from_string W [] str = Inr tb"
        by (cases "add_from_string W [] str") (auto simp: args_ok_def truthy_def)
      then have "table_of W x = tb" by (simp add: table_of_def ArgString)
      then show ?thesis
        using True look d g ArgString tb
        by (simp add: Let_def at nth_append list_update_append)
    next
      case (ArgPairs ps)
      let ?sa = "s\<lparr>ext_jobs := ext_jobs s @ [?J2], subst_lists := subst_lists s @ [?T, []]\<rparr>"
      have ta: "table_at ?sa ?j = Suc ?m" by (simp add: table_at_def)
      then have "table_at ?sa ?j < length (subst_lists ?sa)" by simp
      from set_private_args_tables [OF this, of ps]
      have "set_private_args ?j ps ?sa = ?s2"
        by (simp add: ta table_of_def ArgPairs nth_append list_update_append)
      then show ?thesis
        using True look d g ArgPairs by (simp add: Let_def at)
    qed
    moreover have "extends s ?s2" by (simp add: extends_def)
    moreover have "heap_ok ?s2" using heap_ok_grow [OF ok, of ?J2 "[?T, table_of W x]"] by simp
    moreover have "job_value ?s2 ?j = resolved W (job_value s a) (u, given)"
      using r by (simp add: job_value_def nth_append)
    moreover have "?m \<le> table_at ?s2 ?j" by (simp add: table_at_def)
    ultimately show ?thesis by (intro exI [of _ ?s2]) simp
  qed
qed


text \<open>
  The first loop on occurrences that all name the registered job at address \<open>a\<close>: it
  collects no error and appends one new job object for each occurrence.
\<close>

lemma forward_model_loop_same_job:
  assumes "heap_ok s" and "a < length (ext_jobs s)"
    and "\<forall>(u, given) \<in> set reqs. map_of installed (substitute W t u) = Some a \<and> args_ok W given"
  shows "\<exists>s'. forward_model_loop W installed t cf reqs errors jobs s
                = (errors, jobs @ [length (ext_jobs s) ..< length (ext_jobs s')], s')
          \<and> extends s s' \<and> heap_ok s' \<and> warned s' = warned s
          \<and> length (ext_jobs s') = length (ext_jobs s) + length reqs
          \<and> (\<forall>j \<in> set [length (ext_jobs s) ..< length (ext_jobs s')].
                length (subst_lists s) \<le> table_at s' j)
          \<and> distinct (map (table_at s') [length (ext_jobs s) ..< length (ext_jobs s')])
          \<and> map (job_value s') [length (ext_jobs s) ..< length (ext_jobs s')]
              = map (resolved W (job_value s a)) reqs"
  using assms
proof (induction reqs arbitrary: s jobs)
  case Nil
  then show ?case by simp
next
  case (Cons req reqs)
  obtain u given where req: "req = (u, given)" by (cases req)
  let ?j = "length (ext_jobs s)"
  from Cons.prems(3) req
  have look: "map_of installed (substitute W t u) = Some a" and aok: "args_ok W given"
    and rest: "\<forall>(u, given) \<in> set reqs. map_of installed (substitute W t u) = Some a \<and> args_ok W given"
    by auto
  from forward_model_step [OF Cons.prems(1,2) look aok, where cf = cf]
  obtain s2 where
    run: "\<And>rest errors jobs. forward_model_loop W installed t cf ((u, given) # rest) errors jobs s
              = forward_model_loop W installed t cf rest errors (jobs @ [?j]) s2"
    and ex: "extends s s2" and ok2: "heap_ok s2"
    and len2: "length (ext_jobs s2) = Suc ?j"
    and w2: "warned s2 = warned s"
    and tab: "length (subst_lists s) \<le> table_at s2 ?j"
    and val: "job_value s2 ?j = resolved W (job_value s a) (u, given)"
    by blast
  have a2: "a < length (ext_jobs s2)" using Cons.prems(2) len2 by simp
  from Cons.IH [OF ok2 a2 rest, where jobs = "jobs @ [?j]"]
  obtain s' where
    loop: "forward_model_loop W installed t cf reqs errors (jobs @ [?j]) s2
                = (errors, (jobs @ [?j]) @ [length (ext_jobs s2) ..< length (ext_jobs s')], s')"
    and ex': "extends s2 s'" and ok': "heap_ok s'" and w': "warned s' = warned s2"
    and len': "length (ext_jobs s') = length (ext_jobs s2) + length reqs"
    and tabs: "\<forall>j \<in> set [length (ext_jobs s2) ..< length (ext_jobs s')].
                length (subst_lists s2) \<le> table_at s' j"
    and dist: "distinct (map (table_at s') [length (ext_jobs s2) ..< length (ext_jobs s')])"
    and vals: "map (job_value s') [length (ext_jobs s2) ..< length (ext_jobs s')]
              = map (resolved W (job_value s2 a)) reqs"
    by blast
  have upt: "[?j ..< length (ext_jobs s')] = ?j # [length (ext_jobs s2) ..< length (ext_jobs s')]"
  proof -
    have "?j < length (ext_jobs s')" using len2 len' by simp
    from upt_conv_Cons [OF this] show ?thesis by (simp only: len2)
  qed
  have tj: "table_at s' ?j = table_at s2 ?j"
    using extends_table_at [OF ex'] len2 by simp
  have tj_lt: "table_at s2 ?j < length (subst_lists s2)"
    using heap_ok_table_at [OF ok2] len2 by simp
  have vj: "job_value s' ?j = job_value s2 ?j"
    using extends_job_value [OF ex' ok2] len2 by simp
  have va: "job_value s2 a = job_value s a"
    using extends_job_value [OF ex Cons.prems(1,2)] .
  have 1: "forward_model_loop W installed t cf (req # reqs) errors jobs s
             = (errors, jobs @ [?j ..< length (ext_jobs s')], s')"
    using run loop upt by (simp add: req)
  have 2: "extends s s'" using extends_trans [OF ex ex'] .
  have 3: "length (ext_jobs s') = ?j + length (req # reqs)" using len' len2 by simp
  have 4: "\<forall>j \<in> set [?j ..< length (ext_jobs s')]. length (subst_lists s) \<le> table_at s' j"
  proof
    fix j assume "j \<in> set [?j ..< length (ext_jobs s')]"
    then consider "j = ?j" | "j \<in> set [length (ext_jobs s2) ..< length (ext_jobs s')]"
      unfolding upt by auto
    then show "length (subst_lists s) \<le> table_at s' j"
    proof cases
      case 1
      then show ?thesis using tj tab by simp
    next
      case 2
      with tabs have "length (subst_lists s2) \<le> table_at s' j" by blast
      with extends_length(2) [OF ex] show ?thesis by linarith
    qed
  qed
  have 5: "distinct (map (table_at s') [?j ..< length (ext_jobs s')])"
  proof -
    have "table_at s' ?j \<notin> set (map (table_at s') [length (ext_jobs s2) ..< length (ext_jobs s')])"
    proof
      assume "table_at s' ?j \<in> set (map (table_at s') [length (ext_jobs s2) ..< length (ext_jobs s')])"
      then obtain k where k: "k \<in> set [length (ext_jobs s2) ..< length (ext_jobs s')]"
        and e: "table_at s' ?j = table_at s' k" by auto
      from tabs k have "length (subst_lists s2) \<le> table_at s' k" by blast
      with e tj tj_lt show False by simp
    qed
    with dist show ?thesis unfolding upt by simp
  qed
  have 6: "map (job_value s') [?j ..< length (ext_jobs s')]
              = map (resolved W (job_value s a)) (req # reqs)"
    unfolding upt using vals vj val va by (simp add: req)
  from 1 2 ok' 3 4 5 6 w' w2 show ?case by (intro exI [of _ s']) simp
qed


text \<open>One round of the second loop for an occurrence of a registered job.\<close>

lemma simulation_job_step:
  assumes ok: "heap_ok s" and a: "a < length (ext_jobs s)"
    and look: "map_of installed n = Some a"
  shows "\<exists>s2. (\<forall>rest errors jobs.
            simulation_job_loop installed cf ((n, args) # rest) errors jobs s
              = simulation_job_loop installed cf rest errors (jobs @ [length (ext_jobs s)]) s2)
          \<and> extends s s2 \<and> heap_ok s2
          \<and> length (ext_jobs s2) = Suc (length (ext_jobs s))
          \<and> warned s2 = warned s
          \<and> length (subst_lists s) \<le> table_at s2 (length (ext_jobs s))
          \<and> job_value s2 (length (ext_jobs s)) = resolved_simulation_job (job_value s a) (n, args)"
proof -
  let ?j = "length (ext_jobs s)"
  let ?T = "subst_lists s ! private_args (ext_jobs s ! a)"
  let ?J = "(ext_jobs s ! a)\<lparr>arglist := args, private_args := length (subst_lists s)\<rparr>"
  let ?s2 = "s\<lparr>ext_jobs := ext_jobs s @ [?J], subst_lists := subst_lists s @ [?T]\<rparr>"
  let ?s1 = "s\<lparr>ext_jobs := ext_jobs s @ [(ext_jobs s ! a)\<lparr>private_args := length (subst_lists s)\<rparr>],
               subst_lists := subst_lists s @ [?T]\<rparr>"
  have d: "deepcopy a s = (?j, ?s1)"
    by (simp add: deepcopy_def new_subst_list_def Let_def)
  have sa: "set_arglist ?j args ?s1 = ?s2"
    by (simp add: set_arglist_def)
  have "\<forall>rest errors jobs.
            simulation_job_loop installed cf ((n, args) # rest) errors jobs s
              = simulation_job_loop installed cf rest errors (jobs @ [?j]) ?s2"
    using look by (simp add: d sa)
  moreover have "extends s ?s2" by (simp add: extends_def)
  moreover have "heap_ok ?s2" using heap_ok_grow [OF ok, of ?J "[?T]"] by simp
  moreover have "job_value ?s2 ?j = resolved_simulation_job (job_value s a) (n, args)"
    by (simp add: job_value_def resolved_simulation_job_def nth_append)
  moreover have "length (subst_lists s) \<le> table_at ?s2 ?j" by (simp add: table_at_def)
  ultimately show ?thesis by (intro exI [of _ ?s2]) simp
qed

lemma simulation_job_loop_same_job:
  assumes "heap_ok s" and "a < length (ext_jobs s)"
    and "\<forall>(n, args) \<in> set reqs. map_of installed n = Some a"
  shows "\<exists>s'. simulation_job_loop installed cf reqs errors jobs s
                = (errors, jobs @ [length (ext_jobs s) ..< length (ext_jobs s')], s')
          \<and> extends s s' \<and> heap_ok s' \<and> warned s' = warned s
          \<and> length (ext_jobs s') = length (ext_jobs s) + length reqs
          \<and> (\<forall>j \<in> set [length (ext_jobs s) ..< length (ext_jobs s')].
                length (subst_lists s) \<le> table_at s' j)
          \<and> distinct (map (table_at s') [length (ext_jobs s) ..< length (ext_jobs s')])
          \<and> map (job_value s') [length (ext_jobs s) ..< length (ext_jobs s')]
              = map (resolved_simulation_job (job_value s a)) reqs"
  using assms
proof (induction reqs arbitrary: s jobs)
  case Nil
  then show ?case by simp
next
  case (Cons req reqs)
  obtain n args where req: "req = (n, args)" by (cases req)
  let ?j = "length (ext_jobs s)"
  from Cons.prems(3) req
  have look: "map_of installed n = Some a"
    and rest: "\<forall>(n, args) \<in> set reqs. map_of installed n = Some a"
    by auto
  from simulation_job_step [OF Cons.prems(1,2) look, where cf = cf and args = args]
  obtain s2 where
    run: "\<And>rest errors jobs. simulation_job_loop installed cf ((n, args) # rest) errors jobs s
              = simulation_job_loop installed cf rest errors (jobs @ [?j]) s2"
    and ex: "extends s s2" and ok2: "heap_ok s2"
    and len2: "length (ext_jobs s2) = Suc ?j"
    and w2: "warned s2 = warned s"
    and tab: "length (subst_lists s) \<le> table_at s2 ?j"
    and val: "job_value s2 ?j = resolved_simulation_job (job_value s a) (n, args)"
    by blast
  have a2: "a < length (ext_jobs s2)" using Cons.prems(2) len2 by simp
  from Cons.IH [OF ok2 a2 rest, where jobs = "jobs @ [?j]"]
  obtain s' where
    loop: "simulation_job_loop installed cf reqs errors (jobs @ [?j]) s2
                = (errors, (jobs @ [?j]) @ [length (ext_jobs s2) ..< length (ext_jobs s')], s')"
    and ex': "extends s2 s'" and ok': "heap_ok s'" and w': "warned s' = warned s2"
    and len': "length (ext_jobs s') = length (ext_jobs s2) + length reqs"
    and tabs: "\<forall>j \<in> set [length (ext_jobs s2) ..< length (ext_jobs s')].
                length (subst_lists s2) \<le> table_at s' j"
    and dist: "distinct (map (table_at s') [length (ext_jobs s2) ..< length (ext_jobs s')])"
    and vals: "map (job_value s') [length (ext_jobs s2) ..< length (ext_jobs s')]
              = map (resolved_simulation_job (job_value s2 a)) reqs"
    by blast
  have upt: "[?j ..< length (ext_jobs s')] = ?j # [length (ext_jobs s2) ..< length (ext_jobs s')]"
  proof -
    have "?j < length (ext_jobs s')" using len2 len' by simp
    from upt_conv_Cons [OF this] show ?thesis by (simp only: len2)
  qed
  have tj: "table_at s' ?j = table_at s2 ?j"
    using extends_table_at [OF ex'] len2 by simp
  have tj_lt: "table_at s2 ?j < length (subst_lists s2)"
    using heap_ok_table_at [OF ok2] len2 by simp
  have vj: "job_value s' ?j = job_value s2 ?j"
    using extends_job_value [OF ex' ok2] len2 by simp
  have va: "job_value s2 a = job_value s a"
    using extends_job_value [OF ex Cons.prems(1,2)] .
  have 1: "simulation_job_loop installed cf (req # reqs) errors jobs s
             = (errors, jobs @ [?j ..< length (ext_jobs s')], s')"
    using run loop upt by (simp add: req)
  have 2: "extends s s'" using extends_trans [OF ex ex'] .
  have 3: "length (ext_jobs s') = ?j + length (req # reqs)" using len' len2 by simp
  have 4: "\<forall>j \<in> set [?j ..< length (ext_jobs s')]. length (subst_lists s) \<le> table_at s' j"
  proof
    fix j assume "j \<in> set [?j ..< length (ext_jobs s')]"
    then consider "j = ?j" | "j \<in> set [length (ext_jobs s2) ..< length (ext_jobs s')]"
      unfolding upt by auto
    then show "length (subst_lists s) \<le> table_at s' j"
    proof cases
      case 1
      then show ?thesis using tj tab by simp
    next
      case 2
      with tabs have "length (subst_lists s2) \<le> table_at s' j" by blast
      with extends_length(2) [OF ex] show ?thesis by linarith
    qed
  qed
  have 5: "distinct (map (table_at s') [?j ..< length (ext_jobs s')])"
  proof -
    have "table_at s' ?j \<notin> set (map (table_at s') [length (ext_jobs s2) ..< length (ext_jobs s')])"
    proof
      assume "table_at s' ?j \<in> set (map (table_at s') [length (ext_jobs s2) ..< length (ext_jobs s')])"
      then obtain k where k: "k \<in> set [length (ext_jobs s2) ..< length (ext_jobs s')]"
        and e: "table_at s' ?j = table_at s' k" by auto
      from tabs k have "length (subst_lists s2) \<le> table_at s' k" by blast
      with e tj tj_lt show False by simp
    qed
    with dist show ?thesis unfolding upt by simp
  qed
  have 6: "map (job_value s') [?j ..< length (ext_jobs s')]
              = map (resolved_simulation_job (job_value s a)) (req # reqs)"
    unfolding upt using vals vj val va by (simp add: req)
  from 1 2 ok' 3 4 5 6 w' w2 show ?case by (intro exI [of _ s']) simp
qed

text \<open>Writing to the table of one job, or giving it a new table, changes no other job.\<close>

lemma set_private_arg_other:
  assumes "table_at s b \<noteq> table_at s j"
  shows "job_value (set_private_arg j key val s) b = job_value s b"
  using assms by (simp add: set_private_arg_def job_value_def table_at_def Let_def)

lemma attach_private_args_other:
  assumes "heap_ok s" and "b < length (ext_jobs s)" and "b \<noteq> j"
  shows "job_value (attach_private_args j s) b = job_value s b"
  using assms heap_ok_nth [OF assms(1,2)]
  by (simp add: attach_private_args_def new_subst_list_def job_value_def Let_def nth_append)

text \<open>
  C1. Let every \<^verbatim>\<open>FORWARD_MODEL\<close> occurrence name, after substitution, the same installed job,
  with private arguments that \<^verbatim>\<open>add_from_string\<close> accepts, and every \<^verbatim>\<open>SIMULATION_JOB\<close>
  occurrence name that job too. Then \<^verbatim>\<open>read_forward_model\<close> returns one job for each occurrence,
  in their order. Each is a new object (its address is not one of the store before the
  call) with a table of private arguments of its own (the tables of the returned jobs are
  new and pairwise different), and holds the attributes of the job of the registry with
  the private arguments, or the argument list, of its occurrence. The objects of the store
  before the call, the registry entry among them, are unchanged. Writing a private argument
  of one returned job, or giving it a new table, changes neither the value of a job that
  was in the store before the call nor the value of another returned job; the entry of a
  job in the execution descriptor is a function of this value.
\<close>

theorem invocations_are_independent_copies:
  assumes ok: "heap_ok s"
    and reg: "map_of installed job_name = Some a"
    and a: "a < length (ext_jobs s)"
    and fm: "\<forall>(u, given) \<in> set (get_list (FORWARD_MODEL config_dict)).
               substitute W t u = job_name \<and> args_ok W given"
    and sim: "\<forall>(n, args) \<in> set (get_list (SIMULATION_JOB config_dict)). n = job_name"
  shows "\<exists>jobs s'.
           read_forward_model W installed t config_dict cf s = (Inr jobs, s')
         \<and> length jobs = length (get_list (FORWARD_MODEL config_dict))
                           + length (get_list (SIMULATION_JOB config_dict))
         \<and> map (job_value s') jobs
             = map (resolved W (job_value s a)) (get_list (FORWARD_MODEL config_dict))
               @ map (resolved_simulation_job (job_value s a))
                   (get_list (SIMULATION_JOB config_dict))
         \<and> distinct jobs
         \<and> distinct (map (table_at s') jobs)
         \<and> extends s s'
         \<and> (\<forall>b < length (ext_jobs s). job_value s' b = job_value s b)
         \<and> (\<forall>j \<in> set jobs.
               length (ext_jobs s) \<le> j \<and> j < length (ext_jobs s')
             \<and> length (subst_lists s) \<le> table_at s' j
             \<and> (\<forall>key val b. b < length (ext_jobs s) \<or> (b \<in> set jobs \<and> b \<noteq> j) \<longrightarrow>
                   job_value (set_private_arg j key val s') b = job_value s' b
                 \<and> job_value (attach_private_args j s') b = job_value s' b))"
proof -
  let ?fm = "get_list (FORWARD_MODEL config_dict)"
  let ?sim = "get_list (SIMULATION_JOB config_dict)"
  let ?n = "length (ext_jobs s)"
  from fm reg have fm': "\<forall>(u, given) \<in> set ?fm.
      map_of installed (substitute W t u) = Some a \<and> args_ok W given" by auto
  from sim reg have sim': "\<forall>(n, args) \<in> set ?sim. map_of installed n = Some a" by auto
  from forward_model_loop_same_job [OF ok a fm', where cf = cf and errors = "[]" and jobs = "[]"]
  obtain s1 where
    l1: "forward_model_loop W installed t cf ?fm [] [] s = ([], [?n ..< length (ext_jobs s1)], s1)"
    and ex1: "extends s s1" and ok1: "heap_ok s1"
    and len1: "length (ext_jobs s1) = ?n + length ?fm"
    and tabs1: "\<forall>j \<in> set [?n ..< length (ext_jobs s1)]. length (subst_lists s) \<le> table_at s1 j"
    and dist1: "distinct (map (table_at s1) [?n ..< length (ext_jobs s1)])"
    and vals1: "map (job_value s1) [?n ..< length (ext_jobs s1)]
                  = map (resolved W (job_value s a)) ?fm"
    by auto
  let ?n1 = "length (ext_jobs s1)"
  have a1: "a < ?n1" using a len1 by simp
  from simulation_job_loop_same_job [OF ok1 a1 sim', where cf = cf and errors = "[]"
         and jobs = "[?n ..< ?n1]"]
  obtain s' where
    l2: "simulation_job_loop installed cf ?sim [] [?n ..< ?n1] s1
           = ([], [?n ..< ?n1] @ [?n1 ..< length (ext_jobs s')], s')"
    and ex2: "extends s1 s'" and ok': "heap_ok s'"
    and len2: "length (ext_jobs s') = ?n1 + length ?sim"
    and tabs2: "\<forall>j \<in> set [?n1 ..< length (ext_jobs s')]. length (subst_lists s1) \<le> table_at s' j"
    and dist2: "distinct (map (table_at s') [?n1 ..< length (ext_jobs s')])"
    and vals2: "map (job_value s') [?n1 ..< length (ext_jobs s')]
                  = map (resolved_simulation_job (job_value s1 a)) ?sim"
    by auto
  let ?n2 = "length (ext_jobs s')"
  let ?jobs = "[?n ..< ?n1] @ [?n1 ..< ?n2]"
  have ex: "extends s s'" using extends_trans [OF ex1 ex2] .
  have old1: "table_at s' j = table_at s1 j" "job_value s' j = job_value s1 j" if "j < ?n1" for j
    using that extends_table_at [OF ex2] extends_job_value [OF ex2 ok1] by simp_all
  have 1: "read_forward_model W installed t config_dict cf s = (Inr ?jobs, s')"
    by (simp add: read_forward_model_def l1 l2)
  have 2: "length ?jobs = length ?fm + length ?sim" using len1 len2 by simp
  have m1: "map (job_value s') [?n ..< ?n1] = map (job_value s1) [?n ..< ?n1]"
    by (rule map_cong) (simp_all add: old1)
  have va: "job_value s1 a = job_value s a" using extends_job_value [OF ex1 ok a] .
  have 3: "map (job_value s') ?jobs
             = map (resolved W (job_value s a)) ?fm
               @ map (resolved_simulation_job (job_value s a)) ?sim"
    using m1 vals1 vals2 va by simp
  have 4: "distinct ?jobs" using len1 len2 by (simp add: distinct_append)
  have t1: "map (table_at s') [?n ..< ?n1] = map (table_at s1) [?n ..< ?n1]"
    by (rule map_cong) (simp_all add: old1)
  have lt1: "table_at s1 j < length (subst_lists s1)" if "j < ?n1" for j
    using heap_ok_table_at [OF ok1 that] .
  have 5: "distinct (map (table_at s') ?jobs)"
  proof -
    have "set (map (table_at s1) [?n ..< ?n1]) \<inter> set (map (table_at s') [?n1 ..< ?n2]) = {}"
    proof -
      have "x \<notin> set (map (table_at s') [?n1 ..< ?n2])"
        if "x \<in> set (map (table_at s1) [?n ..< ?n1])" for x
      proof -
        from that obtain i where "i \<in> set [?n ..< ?n1]" and "x = table_at s1 i" by auto
        then have x: "x < length (subst_lists s1)" using lt1 by simp
        have "length (subst_lists s1) \<le> y" if "y \<in> set (map (table_at s') [?n1 ..< ?n2])" for y
          using that tabs2 by auto
        with x show ?thesis by fastforce
      qed
      then show ?thesis by blast
    qed
    with dist1 dist2 show ?thesis by (simp add: t1 del: set_map)
  qed
  have tabs: "length (subst_lists s) \<le> table_at s' j" if "j \<in> set ?jobs" for j
  proof -
    from that consider "j \<in> set [?n ..< ?n1]" | "j \<in> set [?n1 ..< ?n2]" by auto
    then show ?thesis
    proof cases
      case 1
      then have "table_at s' j = table_at s1 j" using old1 by simp
      with tabs1 1 show ?thesis by simp
    next
      case 2
      with tabs2 have "length (subst_lists s1) \<le> table_at s' j" by blast
      with extends_length(2) [OF ex1] show ?thesis by linarith
    qed
  qed
  have regs: "job_value s' b = job_value s b" if "b < ?n" for b
    using extends_job_value [OF ex ok that] .
  have frame: "job_value (set_private_arg j key val s') b = job_value s' b
             \<and> job_value (attach_private_args j s') b = job_value s' b"
    if j: "j \<in> set ?jobs" and b: "b < ?n \<or> (b \<in> set ?jobs \<and> b \<noteq> j)" for j key val b
  proof -
    have bj: "b \<noteq> j" using j b len1 by auto
    have bl: "b < ?n2" using b len1 len2 by auto
    have "table_at s' b \<noteq> table_at s' j"
    proof (cases "b < ?n")
      case True
      then have "table_at s' b = table_at s b" using extends_table_at [OF ex] by simp
      moreover have "table_at s b < length (subst_lists s)"
        using heap_ok_table_at [OF ok True] .
      ultimately show ?thesis using tabs [OF j] by simp
    next
      case False
      with b have bs: "b \<in> set ?jobs" by blast
      from 5 have "inj_on (table_at s') (set ?jobs)" by (simp only: distinct_map)
      from inj_onD [OF this _ bs j] bj show ?thesis by blast
    qed
    from set_private_arg_other [OF this] attach_private_args_other [OF ok' bl bj]
    show ?thesis by blast
  qed
  have 6: "\<forall>j \<in> set ?jobs.
               ?n \<le> j \<and> j < ?n2
             \<and> length (subst_lists s) \<le> table_at s' j
             \<and> (\<forall>key val b. b < ?n \<or> (b \<in> set ?jobs \<and> b \<noteq> j) \<longrightarrow>
                   job_value (set_private_arg j key val s') b = job_value s' b
                 \<and> job_value (attach_private_args j s') b = job_value s' b)"
  proof
    fix j assume j: "j \<in> set ?jobs"
    then have "?n \<le> j \<and> j < ?n2" using len1 len2 by auto
    with tabs [OF j] frame [OF j]
    show "?n \<le> j \<and> j < ?n2
             \<and> length (subst_lists s) \<le> table_at s' j
             \<and> (\<forall>key val b. b < ?n \<or> (b \<in> set ?jobs \<and> b \<noteq> j) \<longrightarrow>
                   job_value (set_private_arg j key val s') b = job_value s' b
                 \<and> job_value (attach_private_args j s') b = job_value s' b)"
      by blast
  qed
  have 7: "\<forall>b < ?n. job_value s' b = job_value s b" using regs by blast
  from 1 2 3 4 5 ex 7 6 show ?thesis
    by (intro exI [of _ ?jobs] exI [of _ s']) (intro conjI; assumption)
qed

theorem invocations_are_independent_copies_witness:
  "\<exists>s'. read_forward_model example_world [(''echo'', 0)] []
            (empty_config\<lparr>FORWARD_MODEL :=
                             Some [(''echo'', Some (ArgString ''<MSG>=hello'')),
                                   (''echo'', Some (ArgPairs [(''<MSG>'', ''bye'')])),
                                   (''echo'', None)],
                           SIMULATION_JOB := Some [(''echo'', [''x''])]\<rparr>)
            ''poly.ert'' example_state
          = (Inr [1, 2, 3, 4], s')
        \<and> map (private_args \<circ> job_value s') [1, 2, 3, 4]
            = [[(''<MSG>'', ''hello'')], [(''<MSG>'', ''bye'')], [], []]
        \<and> job_value (set_private_arg 1 ''<MSG>'' ''changed'' s') 2 = job_value s' 2
        \<and> job_value (set_private_arg 1 ''<MSG>'' ''changed'' s') 0 = job_value example_state 0"
proof -
  let ?cfg = "empty_config\<lparr>FORWARD_MODEL :=
                             Some [(''echo'', Some (ArgString ''<MSG>=hello'')),
                                   (''echo'', Some (ArgPairs [(''<MSG>'', ''bye'')])),
                                   (''echo'', None)],
                           SIMULATION_JOB := Some [(''echo'', [''x''])]\<rparr>"
  have h1: "heap_ok example_state"
    by (simp add: heap_ok_def example_state_def new_ext_job_def new_subst_list_def Let_def
          empty_state_def)
  have h2: "map_of [(''echo'', 0::nat)] ''echo'' = Some 0" by simp
  have h3: "0 < length (ext_jobs example_state)"
    by (simp add: example_state_def new_ext_job_def new_subst_list_def Let_def empty_state_def)
  have h4: "\<forall>(u, given) \<in> set (get_list (FORWARD_MODEL ?cfg)).
               substitute example_world [] u = ''echo'' \<and> args_ok example_world given"
    by (simp add: empty_config_def get_list_def example_world_def args_ok_def)
  have h5: "\<forall>(n, args) \<in> set (get_list (SIMULATION_JOB ?cfg)). n = ''echo''"
    by (simp add: empty_config_def get_list_def)
  from invocations_are_independent_copies [OF h1 h2 h3 h4 h5, where cf = "''poly.ert''"]
  obtain jobs s' where
    r: "read_forward_model example_world [(''echo'', 0)] [] ?cfg ''poly.ert'' example_state
          = (Inr jobs, s')"
    and l: "length jobs = length (get_list (FORWARD_MODEL ?cfg))
                           + length (get_list (SIMULATION_JOB ?cfg))"
    and v: "map (job_value s') jobs
             = map (resolved example_world (job_value example_state 0))
                 (get_list (FORWARD_MODEL ?cfg))
               @ map (resolved_simulation_job (job_value example_state 0))
                   (get_list (SIMULATION_JOB ?cfg))"
    and regs: "\<forall>b < length (ext_jobs example_state). job_value s' b = job_value example_state b"
    and iso: "\<forall>j \<in> set jobs.
               length (ext_jobs example_state) \<le> j \<and> j < length (ext_jobs s')
             \<and> length (subst_lists example_state) \<le> table_at s' j
             \<and> (\<forall>key val b. b < length (ext_jobs example_state) \<or> (b \<in> set jobs \<and> b \<noteq> j) \<longrightarrow>
                   job_value (set_private_arg j key val s') b = job_value s' b
                 \<and> job_value (attach_private_args j s') b = job_value s' b)"
    by blast
  have j: "fst (read_forward_model example_world [(''echo'', 0)] [] ?cfg ''poly.ert'' example_state)
             = Inr [1, 2, 3, 4]"
    by (simp add: read_forward_model_def empty_config_def get_list_def example_world_def
          example_state_def empty_state_def new_ext_job_def new_subst_list_def deepcopy_def
          truthy_def attach_private_args_def set_private_arg_def set_arglist_def Let_def
          nth_append)
  with r have jobs: "jobs = [1, 2, 3, 4]" by simp
  have p: "map (private_args \<circ> job_value s') [1, 2, 3, 4]
            = [[(''<MSG>'', ''hello'')], [(''<MSG>'', ''bye'')], [], []]"
  proof -
    have "map (private_args \<circ> job_value s') jobs = map private_args (map (job_value s') jobs)"
      by simp
    also have "\<dots> = [[(''<MSG>'', ''hello'')], [(''<MSG>'', ''bye'')], [], []]"
      unfolding v
      by (simp add: empty_config_def get_list_def resolved_def resolved_simulation_job_def
            truthy_def table_of_def example_world_def job_value_def example_state_def
            new_ext_job_def new_subst_list_def Let_def empty_state_def example_job_def)
    finally show ?thesis by (simp only: jobs)
  qed
  have m1: "1 \<in> set jobs" using jobs by simp
  have fr: "job_value (set_private_arg 1 key val s') b = job_value s' b"
    if "b < length (ext_jobs example_state) \<or> (b \<in> set jobs \<and> b \<noteq> 1)" for key val b
    using bspec [OF iso m1, THEN conjunct2, THEN conjunct2, THEN conjunct2, rule_format, OF that]
    by (rule conjunct1)
  have "2 \<in> set jobs \<and> (2::nat) \<noteq> 1" using jobs by simp
  then have a: "job_value (set_private_arg 1 ''<MSG>'' ''changed'' s') 2 = job_value s' 2"
    by (intro fr disjI2)
  have "job_value (set_private_arg 1 ''<MSG>'' ''changed'' s') 0 = job_value s' 0"
    using h3 by (intro fr disjI1)
  also have "\<dots> = job_value example_state 0" using regs h3 by blast
  finally have b: "job_value (set_private_arg 1 ''<MSG>'' ''changed'' s') 0
                     = job_value example_state 0" .
  from r have r': "read_forward_model example_world [(''echo'', 0)] [] ?cfg ''poly.ert''
                     example_state = (Inr [1, 2, 3, 4], s')"
    by (simp only: jobs)
  show ?thesis by (intro exI [of _ s'] conjI r' p a b)
qed

end
